theory Spec2Isabelle
  imports Main "HOL-Library.Word" "HOL-Library.Sublist"
begin

unbundle bit_operations_syntax

section \<open>Python values\<close>

text \<open>
  The card editor works on the values that \<^verbatim>\<open>json.loads\<close> produces: \<^verbatim>\<open>None\<close>, booleans,
  integers, floats, strings, lists and dictionaries with string keys. A dictionary is an
  association list in insertion order (Python dictionaries keep it, and
  \<^verbatim>\<open>list(d.values())\<close> reads it); a key is looked up with \<open>map_of\<close>, and the keys of a
  dictionary Python builds are distinct. A string is a list of characters; the core
  compares strings and looks for one inside another, and never reads a character's code.
  A float is kept as the 64 bits of its IEEE-754 double; no function of the core reads a
  float except \<^verbatim>\<open>==\<close> and \<^verbatim>\<open>+=\<close>, whose float cases are parameters (\<open>float_ops\<close>
  below). Equality of two values in a theorem is equality of the data; Python's \<^verbatim>\<open>==\<close>
  follows from it except on a NaN, which is equal to nothing.
\<close>

datatype json =
    JNull
  | JBool bool
  | JInt int
  | JFloat "64 word"
  | JStr string
  | JArr "json list"
  | JObj "(string \<times> json) list"

type_synonym dict = "(string \<times> json) list"

text \<open>The exceptions the core can raise, by their Python class.\<close>

datatype py_error =
    AttributeError
  | KeyError
  | TypeError
  | OverflowError
  | BinasciiError
  | UnicodeEncodeError
  | UnicodeDecodeError
  | JSONDecodeError
  | ValueError

text \<open>A computation that may raise returns \<open>Inl\<close> the exception; \<open>ebind\<close> runs the next
  statement unless one was raised.\<close>

fun ebind :: "py_error + 'a \<Rightarrow> ('a \<Rightarrow> py_error + 'b) \<Rightarrow> py_error + 'b" where
  "ebind (Inl e) f = Inl e"
| "ebind (Inr x) f = f x"

subsection \<open>Dictionaries\<close>

text \<open>\<^verbatim>\<open>d[k] = v\<close>: an existing key keeps its place, a new key goes last.\<close>

fun dict_set :: "(string \<times> 'v) list \<Rightarrow> string \<Rightarrow> 'v \<Rightarrow> (string \<times> 'v) list" where
  "dict_set [] k v = [(k, v)]"
| "dict_set ((k', v') # d) k v = (if k' = k then (k, v) # d else (k', v') # dict_set d k v)"

text \<open>\<^verbatim>\<open>d.get(k, default)\<close>, \<^verbatim>\<open>k in d\<close> and \<^verbatim>\<open>del d[k]\<close> (for a key that is there).\<close>

definition dict_get :: "(string \<times> 'v) list \<Rightarrow> string \<Rightarrow> 'v \<Rightarrow> 'v" where
  "dict_get d k dflt = (case map_of d k of None \<Rightarrow> dflt | Some v \<Rightarrow> v)"

definition dict_has :: "(string \<times> 'v) list \<Rightarrow> string \<Rightarrow> bool" where
  "dict_has d k = (case map_of d k of None \<Rightarrow> False | Some v \<Rightarrow> True)"

definition dict_del :: "(string \<times> 'v) list \<Rightarrow> string \<Rightarrow> (string \<times> 'v) list" where
  "dict_del d k = filter (\<lambda>kv. fst kv \<noteq> k) d"

text \<open>\<^verbatim>\<open>a | b\<close> on two dictionaries: a copy of \<open>a\<close> updated with the items of \<open>b\<close> in order.\<close>

definition dict_or :: "(string \<times> 'v) list \<Rightarrow> (string \<times> 'v) list \<Rightarrow> (string \<times> 'v) list" where
  "dict_or a b = fold (\<lambda>kv acc. dict_set acc (fst kv) (snd kv)) b a"

subsection \<open>Operators on values of any type\<close>

definition isinstance_list :: "json \<Rightarrow> bool" where
  "isinstance_list v = (case v of JArr xs \<Rightarrow> True | _ \<Rightarrow> False)"

definition isinstance_dict :: "json \<Rightarrow> bool" where
  "isinstance_dict v = (case v of JObj d \<Rightarrow> True | _ \<Rightarrow> False)"

text \<open>\<^verbatim>\<open>sub in s\<close> on strings: \<open>sub\<close> occurs in \<open>s\<close> as a contiguous run.\<close>

fun str_contains :: "string \<Rightarrow> string \<Rightarrow> bool" where
  "str_contains sub [] = (sub = [])"
| "str_contains sub (c # cs) = (prefix sub (c # cs) \<or> str_contains sub cs)"

text \<open>\<^verbatim>\<open>v.get(k, default)\<close>: only a dictionary has the method.\<close>

definition py_get :: "json \<Rightarrow> string \<Rightarrow> json \<Rightarrow> py_error + json" where
  "py_get v k dflt = (case v of JObj d \<Rightarrow> Inr (dict_get d k dflt) | _ \<Rightarrow> Inl AttributeError)"

text \<open>\<^verbatim>\<open>k in v\<close> for a string \<open>k\<close>: a key of a dictionary, an element of a list, a substring
  of a string; the other types are not iterable.\<close>

definition py_contains :: "string \<Rightarrow> json \<Rightarrow> py_error + bool" where
  "py_contains k v =
     (case v of
        JObj d \<Rightarrow> Inr (dict_has d k)
      | JArr xs \<Rightarrow> Inr (List.member xs (JStr k))
      | JStr s \<Rightarrow> Inr (str_contains k s)
      | _ \<Rightarrow> Inl TypeError)"

text \<open>\<^verbatim>\<open>v[k]\<close> for a string \<open>k\<close>: a list or a string wants an integer index, the other
  types have no subscript.\<close>

definition py_getitem :: "json \<Rightarrow> string \<Rightarrow> py_error + json" where
  "py_getitem v k =
     (case v of
        JObj d \<Rightarrow> (case map_of d k of None \<Rightarrow> Inl KeyError | Some x \<Rightarrow> Inr x)
      | _ \<Rightarrow> Inl TypeError)"

text \<open>\<^verbatim>\<open>v[k] = x\<close> for a string \<open>k\<close>.\<close>

definition py_setitem :: "json \<Rightarrow> string \<Rightarrow> json \<Rightarrow> py_error + json" where
  "py_setitem v k x = (case v of JObj d \<Rightarrow> Inr (JObj (dict_set d k x)) | _ \<Rightarrow> Inl TypeError)"

text \<open>\<^verbatim>\<open>for x in v\<close>: the elements of a list, the keys of a dictionary, the characters of a
  string.\<close>

definition py_iter :: "json \<Rightarrow> py_error + json list" where
  "py_iter v =
     (case v of
        JArr xs \<Rightarrow> Inr xs
      | JObj d \<Rightarrow> Inr (map (\<lambda>kv. JStr (fst kv)) d)
      | JStr s \<Rightarrow> Inr (map (\<lambda>c. JStr [c]) s)
      | _ \<Rightarrow> Inl TypeError)"

section \<open>Card data scaffolding\<close>

definition base :: json where
  "base = JObj
     [(''spec'', JStr ''chara_card_v2''),
      (''spec_version'', JStr ''2.0''),
      (''data'', JObj
         [(''name'', JStr ''''),
          (''description'', JStr ''''),
          (''personality'', JStr ''''),
          (''scenario'', JStr ''''),
          (''first_mes'', JStr ''''),
          (''mes_example'', JStr ''''),
          (''creator_notes'', JStr ''''),
          (''system_prompt'', JStr ''''),
          (''post_history_instructions'', JStr ''''),
          (''alternate_greetings'', JArr []),
          (''tags'', JArr []),
          (''creator'', JStr ''''),
          (''character_version'', JStr ''''),
          (''extensions'', JObj [])])]"

text \<open>\<^verbatim>\<open>json.loads(json.dumps(base))  # deep copy\<close>: values here are immutable, so the
  copy is the constant.\<close>

definition deep_empty_card :: json where
  "deep_empty_card = base"

section \<open>Normalization (the tail of \<^verbatim>\<open>read_character\<close>)\<close>

text \<open>
  Lines 105 to 117 of \<^verbatim>\<open>read_character\<close> work on the object \<^verbatim>\<open>json.loads\<close> has just
  built, changing it in place. Nothing else refers to that object, so a change to a part
  is the same as putting the changed part back under its key, and the changes made
  before an exception are lost with the object. In \<open>fix_tags\<close>, \<open>fix_greetings\<close> and
  \<open>fix_book\<close> the argument \<open>payload\<close> is \<^verbatim>\<open>data["data"]\<close>.
\<close>

text \<open>\<^verbatim>\<open>if not isinstance(data["data"].get("tags", []), list): data["data"]["tags"] = []\<close>\<close>

definition fix_tags :: "json \<Rightarrow> py_error + json" where
  "fix_tags payload =
     ebind (py_get payload ''tags'' (JArr [])) (\<lambda>tags.
       if \<not> isinstance_list tags then py_setitem payload ''tags'' (JArr [])
       else Inr payload)"

definition fix_greetings :: "json \<Rightarrow> py_error + json" where
  "fix_greetings payload =
     ebind (py_get payload ''alternate_greetings'' (JArr [])) (\<lambda>greetings.
       if \<not> isinstance_list greetings then py_setitem payload ''alternate_greetings'' (JArr [])
       else Inr payload)"

text \<open>The body of the loop over the entries: an entry without a list under
  \<^verbatim>\<open>secondary_keys\<close> gets an empty one; an entry that is no dictionary raises at
  \<^verbatim>\<open>entry.get\<close>.\<close>

definition fix_entry :: "json \<Rightarrow> py_error + json" where
  "fix_entry entry =
     ebind (py_get entry ''secondary_keys'' JNull) (\<lambda>secondary_keys.
       if \<not> isinstance_list secondary_keys then py_setitem entry ''secondary_keys'' (JArr [])
       else Inr entry)"

fun fix_entries :: "json list \<Rightarrow> py_error + json list" where
  "fix_entries [] = Inr []"
| "fix_entries (entry # rest) =
     ebind (fix_entry entry) (\<lambda>entry'.
     ebind (fix_entries rest) (\<lambda>rest'. Inr (entry' # rest')))"

text \<open>
  \<^verbatim>\<open>if "character_book" in data["data"] and "entries" in data["data"]["character_book"]:\<close>
  and the loop. The loop visits whatever \<^verbatim>\<open>entries\<close> iterates over: the elements of a
  list, which are then put back changed; the keys of a dictionary or the characters of a
  string, which are strings, so a non-empty one raises and an empty one changes nothing.
\<close>

definition fix_book :: "json \<Rightarrow> py_error + json" where
  "fix_book payload =
     ebind (py_contains ''character_book'' payload) (\<lambda>has_book.
       if has_book then
         ebind (py_getitem payload ''character_book'') (\<lambda>book.
         ebind (py_contains ''entries'' book) (\<lambda>has_entries.
           if has_entries then
             ebind (py_getitem book ''entries'') (\<lambda>entries.
             ebind (py_iter entries) (\<lambda>items.
             ebind (fix_entries items) (\<lambda>items'.
               if isinstance_list entries then
                 ebind (py_setitem book ''entries'' (JArr items')) (\<lambda>book'.
                   py_setitem payload ''character_book'' book')
               else Inr payload)))
           else Inr payload))
       else Inr payload)"

text \<open>The whole tail, on the value \<open>data0\<close> that \<^verbatim>\<open>json.loads\<close> returned. \<^verbatim>\<open>data.get\<close> needs
  a dictionary, \<^verbatim>\<open>data["data"]\<close> the key, and \<^verbatim>\<open>data["data"].get\<close> a dictionary again.\<close>

definition normalize :: "json \<Rightarrow> py_error + json" where
  "normalize data0 =
     ebind (py_get data0 ''spec'' JNull) (\<lambda>spec.
     ebind (if spec \<noteq> JStr ''chara_card_v2''
            then py_setitem deep_empty_card ''data'' data0
            else Inr data0) (\<lambda>data.
     ebind (py_getitem data ''data'') (\<lambda>payload.
     ebind (fix_tags payload) (\<lambda>payload.
     ebind (fix_greetings payload) (\<lambda>payload.
     ebind (fix_book payload) (\<lambda>payload.
       py_setitem data ''data'' payload))))))"

section \<open>Numbers: the float cases of \<^verbatim>\<open>==\<close> and \<^verbatim>\<open>+\<close>\<close>

text \<open>Arithmetic on doubles is not modelled; the four operations the core can reach are
  parameters. \<open>int_to_float\<close> raises \<^verbatim>\<open>OverflowError\<close> on an integer too large for a
  double, as \<^verbatim>\<open>int + float\<close> does.\<close>

record float_ops =
  float_eq :: "64 word \<Rightarrow> 64 word \<Rightarrow> bool"
  int_eq_float :: "int \<Rightarrow> 64 word \<Rightarrow> bool"
  float_add :: "64 word \<Rightarrow> 64 word \<Rightarrow> 64 word"
  int_to_float :: "int \<Rightarrow> py_error + 64 word"

datatype pynum = NInt int | NFloat "64 word"

text \<open>\<^verbatim>\<open>bool\<close> is a subclass of \<^verbatim>\<open>int\<close>: \<^verbatim>\<open>True\<close> counts as 1.\<close>

definition as_num :: "json \<Rightarrow> pynum option" where
  "as_num v =
     (case v of
        JBool b \<Rightarrow> Some (NInt (if b then 1 else 0))
      | JInt i \<Rightarrow> Some (NInt i)
      | JFloat f \<Rightarrow> Some (NFloat f)
      | _ \<Rightarrow> None)"

fun num_eq :: "float_ops \<Rightarrow> pynum \<Rightarrow> pynum \<Rightarrow> bool" where
  "num_eq F (NInt a) (NInt b) = (a = b)"
| "num_eq F (NInt a) (NFloat g) = int_eq_float F a g"
| "num_eq F (NFloat f) (NInt b) = int_eq_float F b f"
| "num_eq F (NFloat f) (NFloat g) = float_eq F f g"

fun num_add :: "float_ops \<Rightarrow> pynum \<Rightarrow> pynum \<Rightarrow> py_error + json" where
  "num_add F (NInt a) (NInt b) = Inr (JInt (a + b))"
| "num_add F (NInt a) (NFloat g) = ebind (int_to_float F a) (\<lambda>f. Inr (JFloat (float_add F f g)))"
| "num_add F (NFloat f) (NInt b) = ebind (int_to_float F b) (\<lambda>g. Inr (JFloat (float_add F f g)))"
| "num_add F (NFloat f) (NFloat g) = Inr (JFloat (float_add F f g))"

text \<open>\<^verbatim>\<open>x == y\<close>: numbers by value, strings and lists element by element, dictionaries by
  their items whatever the order; values of different kinds are unequal.\<close>

fun py_eq :: "float_ops \<Rightarrow> json \<Rightarrow> json \<Rightarrow> bool"
  and py_eq_list :: "float_ops \<Rightarrow> json list \<Rightarrow> json list \<Rightarrow> bool"
  and py_eq_items :: "float_ops \<Rightarrow> dict \<Rightarrow> dict \<Rightarrow> bool"
where
  "py_eq F JNull y = (y = JNull)"
| "py_eq F (JStr s) y = (y = JStr s)"
| "py_eq F (JArr xs) y = (case y of JArr ys \<Rightarrow> py_eq_list F xs ys | _ \<Rightarrow> False)"
| "py_eq F (JObj a) y =
     (case y of JObj b \<Rightarrow> length a = length b \<and> py_eq_items F a b | _ \<Rightarrow> False)"
| "py_eq F (JBool b) y =
     (case as_num y of Some n \<Rightarrow> num_eq F (NInt (if b then 1 else 0)) n | None \<Rightarrow> False)"
| "py_eq F (JInt i) y = (case as_num y of Some n \<Rightarrow> num_eq F (NInt i) n | None \<Rightarrow> False)"
| "py_eq F (JFloat f) y = (case as_num y of Some n \<Rightarrow> num_eq F (NFloat f) n | None \<Rightarrow> False)"
| "py_eq_list F [] ys = (ys = [])"
| "py_eq_list F (x # xs) ys =
     (case ys of [] \<Rightarrow> False | y # ys' \<Rightarrow> py_eq F x y \<and> py_eq_list F xs ys')"
| "py_eq_items F [] b = True"
| "py_eq_items F (kv # a) b =
     ((case map_of b (fst kv) of None \<Rightarrow> False | Some w \<Rightarrow> py_eq F (snd kv) w)
      \<and> py_eq_items F a b)"

text \<open>\<^verbatim>\<open>x += y\<close>: a list is extended in place by anything iterable, a string by a string,
  a number by a number; nothing else adds.\<close>

definition py_iadd :: "float_ops \<Rightarrow> json \<Rightarrow> json \<Rightarrow> py_error + json" where
  "py_iadd F x y =
     (case x of
        JArr xs \<Rightarrow> (case py_iter y of Inl e \<Rightarrow> Inl TypeError | Inr ys \<Rightarrow> Inr (JArr (xs @ ys)))
      | JStr s \<Rightarrow> (case y of JStr t \<Rightarrow> Inr (JStr (s @ t)) | _ \<Rightarrow> Inl TypeError)
      | _ \<Rightarrow> (case as_num x of
                None \<Rightarrow> Inl TypeError
              | Some m \<Rightarrow> (case as_num y of None \<Rightarrow> Inl TypeError | Some n \<Rightarrow> num_add F m n)))"

text \<open>\<^verbatim>\<open>x | y\<close>: the union of two dictionaries (the right one wins), the bitwise or of two
  integers, the disjunction of two booleans.\<close>

definition py_or :: "json \<Rightarrow> json \<Rightarrow> py_error + json" where
  "py_or x y =
     (case (x, y) of
        (JObj a, JObj b) \<Rightarrow> Inr (JObj (dict_or a b))
      | (JBool a, JBool b) \<Rightarrow> Inr (JBool (a \<or> b))
      | (JBool a, JInt j) \<Rightarrow> Inr (JInt ((if a then 1 else 0) OR j))
      | (JInt i, JBool b) \<Rightarrow> Inr (JInt (i OR (if b then 1 else 0)))
      | (JInt i, JInt j) \<Rightarrow> Inr (JInt (i OR j))
      | _ \<Rightarrow> Inl TypeError)"

text \<open>\<^verbatim>\<open>del v[k]\<close> for a string \<open>k\<close>.\<close>

definition py_delitem :: "json \<Rightarrow> string \<Rightarrow> py_error + json" where
  "py_delitem v k =
     (case v of
        JObj d \<Rightarrow> (if dict_has d k then Inr (JObj (dict_del d k)) else Inl KeyError)
      | _ \<Rightarrow> Inl TypeError)"

section \<open>Character book transform helpers\<close>

text \<open>
  Both helpers change their argument in place, the caller keeps a reference to it, and an
  exception leaves the changes made before it. So each gives the argument as the call
  leaves it, next to the outcome: for \<open>process_worldbook\<close> the value returned (\<open>JNull\<close>
  is \<^verbatim>\<open>None\<close>) or the exception, for \<open>import_worldbook\<close> the exception if any (it
  returns \<^verbatim>\<open>characterBook\<close> itself).
\<close>

text \<open>\<^verbatim>\<open>if "entry" in entry and entry.get("content") == entry.get("entry"): del entry["entry"]\<close>\<close>

definition strip_entry :: "float_ops \<Rightarrow> json \<Rightarrow> py_error + json" where
  "strip_entry F entry =
     ebind (py_contains ''entry'' entry) (\<lambda>has_entry.
       if has_entry then
         ebind (py_get entry ''content'' JNull) (\<lambda>content.
         ebind (py_get entry ''entry'' JNull) (\<lambda>legacy.
           if py_eq F content legacy then py_delitem entry ''entry'' else Inr entry))
       else Inr entry)"

text \<open>The loop \<^verbatim>\<open>for entry in data["entries"]\<close>: the entries before the one that raises stay
  stripped.\<close>

fun strip_entries :: "float_ops \<Rightarrow> json list \<Rightarrow> json list \<times> py_error option" where
  "strip_entries F [] = ([], None)"
| "strip_entries F (entry # rest) =
     (case strip_entry F entry of
        Inl e \<Rightarrow> (entry # rest, Some e)
      | Inr entry' \<Rightarrow>
          (case strip_entries F rest of (rest', r) \<Rightarrow> (entry' # rest', r)))"

text \<open>The branch for a document without \<^verbatim>\<open>entries\<close>: a whole card lends its character
  book.\<close>

definition card_fallback :: "dict \<Rightarrow> py_error + json" where
  "card_fallback d =
     (if dict_has d ''spec'' \<and> dict_get d ''spec'' JNull = JStr ''chara_card_v2''
         \<and> dict_has d ''data''
      then
        ebind (py_contains ''character_book'' (dict_get d ''data'' JNull)) (\<lambda>has_book.
          if has_book then py_getitem (dict_get d ''data'' JNull) ''character_book''
          else Inr JNull)
      else Inr JNull)"

text \<open>\<open>process_worldbook F data\<close> is the pair of \<open>data\<close> as the call leaves it and of what
  the call returns or raises. With an \<^verbatim>\<open>entries\<close> field, what it returns is \<open>data\<close>
  itself.\<close>

definition process_worldbook :: "float_ops \<Rightarrow> json \<Rightarrow> json \<times> (py_error + json)" where
  "process_worldbook F data =
     (case data of
        JObj d \<Rightarrow>
          if \<not> dict_has d ''entries'' then (data, card_fallback d)
          else
            let d1 = (case dict_get d ''entries'' JNull of
                        JObj m \<Rightarrow> dict_set d ''entries'' (JArr (map snd m))
                      | _ \<Rightarrow> d)
            in (case py_iter (dict_get d1 ''entries'' JNull) of
                  Inl e \<Rightarrow> (JObj d1, Inl e)
                | Inr items \<Rightarrow>
                    (case strip_entries F items of
                       (items', r) \<Rightarrow>
                         let d2 = (case dict_get d1 ''entries'' JNull of
                                     JArr xs \<Rightarrow> dict_set d1 ''entries'' (JArr items')
                                   | _ \<Rightarrow> d1)
                         in (JObj d2, case r of Some e \<Rightarrow> Inl e | None \<Rightarrow> Inr (JObj d2))))
      | _ \<Rightarrow> (data, Inr JNull))"

text \<open>\<^verbatim>\<open>if v != "" and characterBook.get(key, "") == "": characterBook[key] = v\<close>, with
  \<open>v\<close> the world book's value; the source writes it once for \<^verbatim>\<open>description\<close> and once
  for \<^verbatim>\<open>name\<close>.\<close>

definition adopt :: "string \<Rightarrow> json \<Rightarrow> json \<Rightarrow> py_error + json" where
  "adopt key worldBook characterBook =
     ebind (py_get worldBook key (JStr '''')) (\<lambda>v.
       if v \<noteq> JStr '''' then
         ebind (py_get characterBook key (JStr '''')) (\<lambda>cur.
           if cur = JStr '''' then py_setitem characterBook key v else Inr characterBook)
       else Inr characterBook)"

text \<open>\<^verbatim>\<open>characterBook["entries"] = characterBook.get("entries", [])\<close>\<close>

definition default_entries :: "json \<Rightarrow> py_error + json" where
  "default_entries characterBook =
     ebind (py_get characterBook ''entries'' (JArr [])) (\<lambda>entries.
       py_setitem characterBook ''entries'' entries)"

text \<open>\<^verbatim>\<open>characterBook["entries"] += worldBook["entries"]\<close>: the target is read first, then
  the right-hand side.\<close>

definition extend_entries :: "float_ops \<Rightarrow> json \<Rightarrow> json \<Rightarrow> py_error + json" where
  "extend_entries F worldBook characterBook =
     ebind (py_getitem characterBook ''entries'') (\<lambda>cur.
     ebind (py_getitem worldBook ''entries'') (\<lambda>new.
     ebind (py_iadd F cur new) (\<lambda>both.
       py_setitem characterBook ''entries'' both)))"

definition merge_extensions :: "json \<Rightarrow> json \<Rightarrow> py_error + json" where
  "merge_extensions worldBook characterBook =
     ebind (py_get worldBook ''extensions'' (JObj [])) (\<lambda>worldExtensions.
     ebind (py_get characterBook ''extensions'' (JObj [])) (\<lambda>characterExtensions.
     ebind (py_or characterExtensions worldExtensions) (\<lambda>merged.
       py_setitem characterBook ''extensions'' merged)))"

text \<open>One statement after another on the book; after an exception nothing more runs.\<close>

fun then_do :: "json \<times> py_error option \<Rightarrow> (json \<Rightarrow> py_error + json) \<Rightarrow> json \<times> py_error option" where
  "then_do (s, Some e) f = (s, Some e)"
| "then_do (s, None) f = (case f s of Inl e \<Rightarrow> (s, Some e) | Inr s' \<Rightarrow> (s', None))"

text \<open>\<open>import_worldbook F characterBook worldBook\<close> is the pair of \<open>characterBook\<close> as the
  call leaves it and of the exception, if one was raised. The world book is only read.\<close>

definition import_worldbook :: "float_ops \<Rightarrow> json \<Rightarrow> json \<Rightarrow> json \<times> py_error option" where
  "import_worldbook F characterBook worldBook =
     then_do (then_do (then_do (then_do (then_do (characterBook, None)
       (adopt ''description'' worldBook))
       (adopt ''name'' worldBook))
       default_entries)
       (extend_entries F worldBook))
       (merge_extensions worldBook)"

section \<open>PNG files and the card in their text chunks\<close>

text \<open>
  A PNG file, as far as the editor reads it: the image, which the editor never looks
  into, and the textual chunks in file order. \<^verbatim>\<open>PngImageFile(path).text\<close> is the dictionary
  Pillow builds from the chunks one after another, so the last chunk of a key wins.
  \<^verbatim>\<open>PngInfo()\<close> starts an empty list of chunks, \<^verbatim>\<open>add_text\<close> appends one, and
  \<^verbatim>\<open>image.save(path, 'PNG', pnginfo=metadata)\<close> writes the image with the chunks of
  \<open>metadata\<close> and no others. A file that is no PNG and Pillow's limit on the size of
  text chunks are outside this model: \<open>png_file\<close> holds files Pillow opens.
\<close>

record 'p png_file =
  pixels :: 'p
  chunks :: "(string \<times> string) list"

definition png_text :: "'p png_file \<Rightarrow> string \<rightharpoonup> string" where
  "png_text img = map_of (rev (chunks img))"

definition PngInfo :: "(string \<times> string) list" where
  "PngInfo = []"

definition add_text :: "(string \<times> string) list \<Rightarrow> string \<Rightarrow> string \<Rightarrow> (string \<times> string) list" where
  "add_text metadata key v = metadata @ [(key, v)]"

definition save :: "'p png_file \<Rightarrow> (string \<times> string) list \<Rightarrow> 'p png_file" where
  "save img metadata = \<lparr>pixels = pixels img, chunks = metadata\<rparr>"

text \<open>
  The library calls of the codec are parameters: \<^verbatim>\<open>json.dumps\<close>, \<^verbatim>\<open>json.loads\<close>,
  \<^verbatim>\<open>base64.b64encode\<close>, \<^verbatim>\<open>base64.b64decode\<close>, \<^verbatim>\<open>str.encode('utf-8')\<close> and
  \<^verbatim>\<open>bytes.decode('utf-8')\<close>. Each may raise, except \<^verbatim>\<open>b64encode\<close>.
\<close>

type_synonym bytes = "8 word list"

record pylib =
  json_dumps :: "json \<Rightarrow> py_error + string"
  json_loads :: "string \<Rightarrow> py_error + json"
  b64encode :: "bytes \<Rightarrow> bytes"
  b64decode :: "bytes \<Rightarrow> py_error + bytes"
  encode_utf8 :: "string \<Rightarrow> py_error + bytes"
  decode_utf8 :: "bytes \<Rightarrow> py_error + string"

text \<open>\<^verbatim>\<open>read_character(path)\<close>, on the file at \<open>path\<close>.\<close>

definition read_character :: "pylib \<Rightarrow> 'p png_file \<Rightarrow> py_error + json" where
  "read_character L img =
     (case png_text img ''chara'' of
        None \<Rightarrow> Inr deep_empty_card
      | Some user_comment \<Rightarrow>
          ebind (encode_utf8 L user_comment) (\<lambda>base64_bytes.
          ebind (b64decode L base64_bytes) (\<lambda>json_bytes.
          ebind (decode_utf8 L json_bytes) (\<lambda>json_str.
          ebind (json_loads L json_str) (\<lambda>data.
            normalize data)))))"

text \<open>\<^verbatim>\<open>write_character(path, data)\<close>: the file it leaves at \<open>path\<close>, from the file that was
  there.\<close>

definition write_character :: "pylib \<Rightarrow> 'p png_file \<Rightarrow> json \<Rightarrow> py_error + 'p png_file" where
  "write_character L img data =
     ebind (json_dumps L data) (\<lambda>json_str.
     ebind (encode_utf8 L json_str) (\<lambda>json_bytes.
     ebind (decode_utf8 L (b64encode L json_bytes)) (\<lambda>base64_str.
       Inr (save img (add_text PngInfo ''chara'' base64_str)))))"

section \<open>Stand-ins for the parameters\<close>

text \<open>Float operations for running the model on values that hold no float: none of the
  fields is called on them.\<close>

definition no_floats :: float_ops where
  "no_floats = \<lparr>float_eq = (\<lambda>a b. a = b), int_eq_float = (\<lambda>i f. False),
     float_add = (\<lambda>a b. a), int_to_float = (\<lambda>i. Inl OverflowError)\<rparr>"

text \<open>
  An executable library for running the codec on concrete files: UTF-8 on the code points
  a \<open>char\<close> holds, Base64 with padding (\<^verbatim>\<open>b64decode\<close> drops the bytes outside
  the alphabet first, as the default of Python's does, and raises on a group it cannot
  decode), and JSON in the layout of \<^verbatim>\<open>json.dumps\<close> (\<^verbatim>\<open>", "\<close> and \<^verbatim>\<open>": "\<close>,
  everything outside printable ASCII escaped) for values without floats.
\<close>

definition utf8_char :: "char \<Rightarrow> bytes" where
  "utf8_char c =
     (let n = (of_char c :: nat)
      in if n < 128 then [of_nat n] else [of_nat (192 + n div 64), of_nat (128 + n mod 64)])"

definition ref_encode_utf8 :: "string \<Rightarrow> py_error + bytes" where
  "ref_encode_utf8 s = Inr (concat (map utf8_char s))"

definition byte_char :: "nat \<Rightarrow> char" where
  "byte_char n =
     Char (odd n) (odd (n div 2)) (odd (n div 4)) (odd (n div 8))
          (odd (n div 16)) (odd (n div 32)) (odd (n div 64)) (odd (n div 128))"

fun ref_decode_utf8 :: "bytes \<Rightarrow> py_error + string" where
  "ref_decode_utf8 [] = Inr []"
| "ref_decode_utf8 (b # bs) =
     (if unat b < 128 then ebind (ref_decode_utf8 bs) (\<lambda>s. Inr (byte_char (unat b) # s))
      else if unat b = 194 \<or> unat b = 195 then
        (case bs of
           [] \<Rightarrow> Inl UnicodeDecodeError
         | b2 # rest \<Rightarrow>
             if 128 \<le> unat b2 \<and> unat b2 < 192
             then ebind (ref_decode_utf8 rest) (\<lambda>s.
                    Inr (byte_char ((unat b - 192) * 64 + (unat b2 - 128)) # s))
             else Inl UnicodeDecodeError)
      else Inl UnicodeDecodeError)"

definition b64_char :: "nat \<Rightarrow> 8 word" where
  "b64_char n =
     (if n < 26 then of_nat (65 + n)
      else if n < 52 then of_nat (97 + (n - 26))
      else if n < 62 then of_nat (48 + (n - 52))
      else if n = 62 then 43 else 47)"

definition b64_index :: "8 word \<Rightarrow> nat option" where
  "b64_index b =
     (let n = unat b
      in if 65 \<le> n \<and> n \<le> 90 then Some (n - 65)
         else if 97 \<le> n \<and> n \<le> 122 then Some (n - 97 + 26)
         else if 48 \<le> n \<and> n \<le> 57 then Some (n - 48 + 52)
         else if n = 43 then Some 62
         else if n = 47 then Some 63
         else None)"

fun ref_b64encode :: "bytes \<Rightarrow> bytes" where
  "ref_b64encode [] = []"
| "ref_b64encode [a] =
     (let n = unat a * 65536
      in [b64_char (n div 262144), b64_char (n div 4096 mod 64), 61, 61])"
| "ref_b64encode [a, b] =
     (let n = unat a * 65536 + unat b * 256
      in [b64_char (n div 262144), b64_char (n div 4096 mod 64), b64_char (n div 64 mod 64), 61])"
| "ref_b64encode (a # b # c # rest) =
     (let n = unat a * 65536 + unat b * 256 + unat c
      in [b64_char (n div 262144), b64_char (n div 4096 mod 64), b64_char (n div 64 mod 64),
          b64_char (n mod 64)] @ ref_b64encode rest)"

fun b64_groups :: "bytes \<Rightarrow> py_error + bytes" where
  "b64_groups [] = Inr []"
| "b64_groups (a # b # c # d # rest) =
     (case (b64_index a, b64_index b) of
        (Some x, Some y) \<Rightarrow>
          if c = 61 \<and> d = 61 \<and> rest = [] then Inr [of_nat (x * 4 + y div 16)]
          else
            (case b64_index c of
               None \<Rightarrow> Inl BinasciiError
             | Some z \<Rightarrow>
                 if d = 61 \<and> rest = []
                 then Inr [of_nat (x * 4 + y div 16), of_nat (y mod 16 * 16 + z div 4)]
                 else
                   (case b64_index d of
                      None \<Rightarrow> Inl BinasciiError
                    | Some w \<Rightarrow>
                        ebind (b64_groups rest) (\<lambda>r.
                          Inr (of_nat (x * 4 + y div 16) # of_nat (y mod 16 * 16 + z div 4)
                               # of_nat (z mod 4 * 64 + w) # r))))
      | _ \<Rightarrow> Inl BinasciiError)"
| "b64_groups _ = Inl BinasciiError"

definition ref_b64decode :: "bytes \<Rightarrow> py_error + bytes" where
  "ref_b64decode bs = b64_groups (filter (\<lambda>b. b64_index b \<noteq> None \<or> b = 61) bs)"

definition hex_digit :: "nat \<Rightarrow> char" where
  "hex_digit n = ''0123456789abcdef'' ! n"

definition escape_char :: "char \<Rightarrow> string" where
  "escape_char c =
     (if c = CHR 0x22 then [CHR 0x5C, CHR 0x22]
      else if c = CHR 0x5C then [CHR 0x5C, CHR 0x5C]
      else if c = CHR 0x0A then [CHR 0x5C, CHR ''n'']
      else if c = CHR 0x0D then [CHR 0x5C, CHR ''r'']
      else if c = CHR 0x09 then [CHR 0x5C, CHR ''t'']
      else if c = CHR 0x08 then [CHR 0x5C, CHR ''b'']
      else if c = CHR 0x0C then [CHR 0x5C, CHR ''f'']
      else (let n = (of_char c :: nat)
            in if n < 32 \<or> 126 < n
               then [CHR 0x5C, CHR ''u'', CHR ''0'', CHR ''0'', hex_digit (n div 16), hex_digit (n mod 16)]
               else [c]))"

definition quote :: "string \<Rightarrow> string" where
  "quote s = CHR 0x22 # concat (map escape_char s) @ [CHR 0x22]"

fun digits :: "nat \<Rightarrow> string" where
  "digits n = (if n < 10 then [hex_digit n] else digits (n div 10) @ [hex_digit (n mod 10)])"

declare digits.simps [simp del]

definition show_int :: "int \<Rightarrow> string" where
  "show_int i = (if i < 0 then CHR ''-'' # digits (nat (- i)) else digits (nat i))"

fun dumps_value :: "json \<Rightarrow> py_error + string"
  and dumps_elems :: "json list \<Rightarrow> py_error + string"
  and dumps_items :: "dict \<Rightarrow> py_error + string"
where
  "dumps_value JNull = Inr ''null''"
| "dumps_value (JBool b) = Inr (if b then ''true'' else ''false'')"
| "dumps_value (JInt i) = Inr (show_int i)"
| "dumps_value (JFloat f) = Inl ValueError"
| "dumps_value (JStr s) = Inr (quote s)"
| "dumps_value (JArr xs) = ebind (dumps_elems xs) (\<lambda>t. Inr (''['' @ t @ '']''))"
| "dumps_value (JObj kvs) = ebind (dumps_items kvs) (\<lambda>t. Inr (''{'' @ t @ ''}''))"
| "dumps_elems [] = Inr []"
| "dumps_elems (x # xs) =
     ebind (dumps_value x) (\<lambda>t.
       if xs = [] then Inr t else ebind (dumps_elems xs) (\<lambda>r. Inr (t @ '', '' @ r)))"
| "dumps_items [] = Inr []"
| "dumps_items (kv # kvs) =
     ebind (dumps_value (snd kv)) (\<lambda>t.
       if kvs = [] then Inr (quote (fst kv) @ '': '' @ t)
       else ebind (dumps_items kvs) (\<lambda>r. Inr (quote (fst kv) @ '': '' @ t @ '', '' @ r)))"

definition is_ws :: "char \<Rightarrow> bool" where
  "is_ws c = (c = CHR '' '' \<or> c = CHR 0x0A \<or> c = CHR 0x0D \<or> c = CHR 0x09)"

definition skip_ws :: "string \<Rightarrow> string" where
  "skip_ws s = dropWhile is_ws s"

definition hex_val :: "char \<Rightarrow> nat option" where
  "hex_val c =
     map_of [(CHR ''0'', 0), (CHR ''1'', 1), (CHR ''2'', 2), (CHR ''3'', 3), (CHR ''4'', 4),
             (CHR ''5'', 5), (CHR ''6'', 6), (CHR ''7'', 7), (CHR ''8'', 8), (CHR ''9'', 9),
             (CHR ''a'', 10), (CHR ''b'', 11), (CHR ''c'', 12), (CHR ''d'', 13), (CHR ''e'', 14),
             (CHR ''f'', 15), (CHR ''A'', 10), (CHR ''B'', 11), (CHR ''C'', 12), (CHR ''D'', 13),
             (CHR ''E'', 14), (CHR ''F'', 15)] c"

definition digit_val :: "char \<Rightarrow> nat option" where
  "digit_val c = (case hex_val c of None \<Rightarrow> None | Some d \<Rightarrow> if d < 10 then Some d else None)"

definition unescape :: "char \<Rightarrow> char option" where
  "unescape e =
     map_of [(CHR 0x22, CHR 0x22), (CHR 0x5C, CHR 0x5C), (CHR ''/'', CHR ''/''),
             (CHR ''n'', CHR 0x0A), (CHR ''r'', CHR 0x0D), (CHR ''t'', CHR 0x09),
             (CHR ''b'', CHR 0x08), (CHR ''f'', CHR 0x0C)] e"

text \<open>The four hex digits of a \<^verbatim>\<open>\u\<close> escape; the code points above 255 have no \<open>char\<close>.\<close>

definition hex4 :: "string \<Rightarrow> (char \<times> string) option" where
  "hex4 s =
     (case s of
        h1 # h2 # h3 # h4 # rest \<Rightarrow>
          (case (hex_val h1, hex_val h2, hex_val h3, hex_val h4) of
             (Some a, Some b, Some c, Some d) \<Rightarrow>
               if a = 0 \<and> b = 0 then Some (byte_char (c * 16 + d), rest) else None
           | _ \<Rightarrow> None)
      | _ \<Rightarrow> None)"

text \<open>A string, from after its opening quote.\<close>

function parse_string :: "string \<Rightarrow> (string \<times> string) option" where
  "parse_string [] = None"
| "parse_string (c # cs) =
     (if c = CHR 0x22 then Some ([], cs)
      else if c = CHR 0x5C then
        (case cs of
           [] \<Rightarrow> None
         | e # r \<Rightarrow>
             if e = CHR ''u'' then
               (case hex4 r of
                  None \<Rightarrow> None
                | Some (ch, r') \<Rightarrow>
                    (case parse_string (drop 4 r) of
                       None \<Rightarrow> None
                     | Some (s, t) \<Rightarrow> Some (ch # s, t)))
             else
               (case unescape e of
                  None \<Rightarrow> None
                | Some ch \<Rightarrow>
                    (case parse_string r of None \<Rightarrow> None | Some (s, t) \<Rightarrow> Some (ch # s, t))))
      else if (of_char c :: nat) < 32 then None
      else (case parse_string cs of None \<Rightarrow> None | Some (s, t) \<Rightarrow> Some (c # s, t)))"
  by pat_completeness auto
termination
  by (relation "measure length") auto

declare parse_string.simps [simp del]

fun parse_digits :: "nat \<Rightarrow> string \<Rightarrow> nat \<times> string" where
  "parse_digits acc [] = (acc, [])"
| "parse_digits acc (c # cs) =
     (case digit_val c of None \<Rightarrow> (acc, c # cs) | Some d \<Rightarrow> parse_digits (acc * 10 + d) cs)"

text \<open>An integer; a fraction or an exponent makes a float, which the stand-in does not
  read.\<close>

definition parse_nat :: "string \<Rightarrow> (nat \<times> string) option" where
  "parse_nat s =
     (case s of
        [] \<Rightarrow> None
      | c # cs \<Rightarrow>
          (case digit_val c of
             None \<Rightarrow> None
           | Some d \<Rightarrow>
               (case parse_digits d (if d = 0 then [] else cs) of
                  (n, rest) \<Rightarrow>
                    (let rest' = (if d = 0 then cs else rest)
                     in case rest' of
                          [] \<Rightarrow> Some (n, rest')
                        | x # xs \<Rightarrow>
                            if x = CHR ''.'' \<or> x = CHR ''e'' \<or> x = CHR ''E'' \<or> digit_val x \<noteq> None
                            then None else Some (n, rest')))))"

definition parse_number :: "string \<Rightarrow> (json \<times> string) option" where
  "parse_number s =
     (case s of
        [] \<Rightarrow> None
      | c # cs \<Rightarrow>
          if c = CHR ''-''
          then (case parse_nat cs of None \<Rightarrow> None | Some (n, rest) \<Rightarrow> Some (JInt (- int n), rest))
          else (case parse_nat s of None \<Rightarrow> None | Some (n, rest) \<Rightarrow> Some (JInt (int n), rest)))"

text \<open>The first argument is fuel, one element for each call; the text itself is enough.\<close>

fun parse_value :: "string \<Rightarrow> string \<Rightarrow> (json \<times> string) option"
  and parse_elems :: "string \<Rightarrow> string \<Rightarrow> (json list \<times> string) option"
  and parse_items :: "string \<Rightarrow> string \<Rightarrow> (dict \<times> string) option"
where
  "parse_value [] s = None"
| "parse_value (f # fuel) s =
     (case skip_ws s of
        [] \<Rightarrow> None
      | c # r \<Rightarrow>
          if c = CHR ''{'' then
            (case skip_ws r of
               [] \<Rightarrow> None
             | c2 # r2 \<Rightarrow>
                 if c2 = CHR ''}'' then Some (JObj [], r2)
                 else (case parse_items fuel (c2 # r2) of
                         None \<Rightarrow> None
                       | Some (kvs, t) \<Rightarrow> Some (JObj (dict_or [] kvs), t)))
          else if c = CHR ''['' then
            (case skip_ws r of
               [] \<Rightarrow> None
             | c2 # r2 \<Rightarrow>
                 if c2 = CHR '']'' then Some (JArr [], r2)
                 else (case parse_elems fuel (c2 # r2) of
                         None \<Rightarrow> None
                       | Some (xs, t) \<Rightarrow> Some (JArr xs, t)))
          else if c = CHR 0x22 then
            (case parse_string r of None \<Rightarrow> None | Some (str, t) \<Rightarrow> Some (JStr str, t))
          else if prefix ''true'' (c # r) then Some (JBool True, drop 4 (c # r))
          else if prefix ''false'' (c # r) then Some (JBool False, drop 5 (c # r))
          else if prefix ''null'' (c # r) then Some (JNull, drop 4 (c # r))
          else parse_number (c # r))"
| "parse_elems [] s = None"
| "parse_elems (f # fuel) s =
     (case parse_value fuel s of
        None \<Rightarrow> None
      | Some (v, r) \<Rightarrow>
          (case skip_ws r of
             [] \<Rightarrow> None
           | c # r' \<Rightarrow>
               if c = CHR '','' then
                 (case parse_elems fuel r' of None \<Rightarrow> None | Some (vs, t) \<Rightarrow> Some (v # vs, t))
               else if c = CHR '']'' then Some ([v], r')
               else None))"
| "parse_items [] s = None"
| "parse_items (f # fuel) s =
     (case skip_ws s of
        [] \<Rightarrow> None
      | c # r \<Rightarrow>
          if c = CHR 0x22 then
            (case parse_string r of
               None \<Rightarrow> None
             | Some (k, r1) \<Rightarrow>
                 (case skip_ws r1 of
                    [] \<Rightarrow> None
                  | c1 # r2 \<Rightarrow>
                      if c1 = CHR '':'' then
                        (case parse_value fuel r2 of
                           None \<Rightarrow> None
                         | Some (v, r3) \<Rightarrow>
                             (case skip_ws r3 of
                                [] \<Rightarrow> None
                              | c3 # r4 \<Rightarrow>
                                  if c3 = CHR '','' then
                                    (case parse_items fuel r4 of
                                       None \<Rightarrow> None
                                     | Some (kvs, t) \<Rightarrow> Some ((k, v) # kvs, t))
                                  else if c3 = CHR ''}'' then Some ([(k, v)], r4)
                                  else None))
                      else None))
          else None)"

definition ref_json_loads :: "string \<Rightarrow> py_error + json" where
  "ref_json_loads s =
     (case parse_value (CHR '' '' # s) s of
        None \<Rightarrow> Inl JSONDecodeError
      | Some (v, rest) \<Rightarrow> if skip_ws rest = [] then Inr v else Inl JSONDecodeError)"

definition ref_lib :: pylib where
  "ref_lib = \<lparr>json_dumps = dumps_value, json_loads = ref_json_loads,
     b64encode = ref_b64encode, b64decode = ref_b64decode,
     encode_utf8 = ref_encode_utf8, decode_utf8 = ref_decode_utf8\<rparr>"

subsection \<open>Example values\<close>

text \<open>A card that meets the schema, the text \<^verbatim>\<open>json.dumps\<close> gives for it, and that text in
  Base64.\<close>

definition card_foo :: json where
  "card_foo = JObj
     [(''spec'', JStr ''chara_card_v2''),
      (''data'', JObj [(''name'', JStr ''Foo''), (''tags'', JArr [])])]"

definition card_foo_text :: string where
  "card_foo_text = ''{\"spec\": \"chara_card_v2\", \"data\": {\"name\": \"Foo\", \"tags\": []}}''"

definition card_foo_base64 :: string where
  "card_foo_base64 =
     ''eyJzcGVjIjogImNoYXJhX2NhcmRfdjIiLCAiZGF0YSI6IHsibmFtZSI6ICJGb28iLCAidGFncyI6IFtdfX0=''"

text \<open>A legacy flat character with a malformed \<^verbatim>\<open>tags\<close>, and the card normalization
  makes of it.\<close>

definition legacy_foo :: json where
  "legacy_foo = JObj [(''name'', JStr ''Foo''), (''tags'', JStr ''not-an-array'')]"

definition legacy_foo_card :: json where
  "legacy_foo_card = JObj
     [(''spec'', JStr ''chara_card_v2''),
      (''spec_version'', JStr ''2.0''),
      (''data'', JObj [(''name'', JStr ''Foo''), (''tags'', JArr [])])]"

definition legacy_foo_text :: string where
  "legacy_foo_text =
     ''{\"spec\": \"chara_card_v2\", \"spec_version\": \"2.0\", \"data\": {\"name\": \"Foo\", \"tags\": []}}''"

text \<open>PNG files: one without text chunks, one with a comment and an older card, and three
  whose \<^verbatim>\<open>chara\<close> chunk is broken: a Base64 text of three characters, the Base64 of the
  byte \<^verbatim>\<open>0xFF\<close>, and the Base64 of \<^verbatim>\<open>{\<close>.\<close>

definition blank_png :: "nat png_file" where
  "blank_png = \<lparr>pixels = 0, chunks = []\<rparr>"

definition tagged_png :: "nat png_file" where
  "tagged_png = \<lparr>pixels = 7, chunks = [(''Comment'', ''hello''), (''chara'', ''e30='')]\<rparr>"

definition bad_base64_png :: "nat png_file" where
  "bad_base64_png = \<lparr>pixels = 1, chunks = [(''chara'', ''abc'')]\<rparr>"

definition bad_utf8_png :: "nat png_file" where
  "bad_utf8_png = \<lparr>pixels = 2, chunks = [(''chara'', ''/w=='')]\<rparr>"

definition bad_json_png :: "nat png_file" where
  "bad_json_png = \<lparr>pixels = 3, chunks = [(''chara'', ''ew=='')]\<rparr>"

text \<open>A card in which \<^verbatim>\<open>character_book.entries\<close> is a keyed mapping, one in which it is
  the empty mapping, and a world book in the keyed form with a legacy \<^verbatim>\<open>entry\<close> field.\<close>

definition card_keyed_entries :: json where
  "card_keyed_entries = JObj
     [(''spec'', JStr ''chara_card_v2''),
      (''data'', JObj
         [(''name'', JStr ''Foo''),
          (''character_book'', JObj
             [(''entries'', JObj [(''0'', JObj [(''keys'', JArr [JStr ''a'']),
                                               (''content'', JStr ''x'')])])])])]"

definition card_empty_mapping :: json where
  "card_empty_mapping = JObj
     [(''spec'', JStr ''chara_card_v2''),
      (''data'', JObj [(''character_book'', JObj [(''entries'', JObj [])])])]"

definition worldbook_keyed :: json where
  "worldbook_keyed = JObj
     [(''entries'', JObj
         [(''0'', JObj [(''entry'', JStr ''x''), (''content'', JStr ''x'')]),
          (''1'', JObj [(''entry'', JStr ''x''), (''content'', JStr ''y'')])])]"

definition worldbook_listed :: json where
  "worldbook_listed = JObj
     [(''entries'', JArr
         [JObj [(''content'', JStr ''x'')],
          JObj [(''entry'', JStr ''x''), (''content'', JStr ''y'')]])]"

text \<open>A whole card whose character book has no entries.\<close>

definition card_empty_book :: json where
  "card_empty_book = JObj
     [(''spec'', JStr ''chara_card_v2''), (''data'', JObj [(''character_book'', JObj [])])]"

section \<open>Facts about the operations\<close>

lemma ebind_eq_Inr: "ebind m f = Inr y \<longleftrightarrow> (\<exists>x. m = Inr x \<and> f x = Inr y)"
  by (cases m) auto

lemma ebind_eq_Inl: "ebind m f = Inl e \<longleftrightarrow> m = Inl e \<or> (\<exists>x. m = Inr x \<and> f x = Inl e)"
  by (cases m) auto

subsection \<open>Dictionaries\<close>

lemma map_of_dict_set: "map_of (dict_set d k v) = (map_of d)(k \<mapsto> v)"
  by (induction d) (auto simp: fun_eq_iff)

lemma dict_set_twice: "dict_set (dict_set d k v) k w = dict_set d k w"
  by (induction d) auto

lemma dict_get_dict_set:
  "dict_get (dict_set d k v) k' dflt = (if k' = k then v else dict_get d k' dflt)"
  by (simp add: dict_get_def map_of_dict_set)

lemma dict_has_dict_set: "dict_has (dict_set d k v) k' = (k' = k \<or> dict_has d k')"
  by (simp add: dict_has_def map_of_dict_set)

text \<open>The union of two dictionaries looks a key up on the right first. The keys of a
  Python dictionary are distinct; in an association list this has to be said.\<close>

lemma map_of_dict_or:
  "distinct (map fst b) \<Longrightarrow> map_of (dict_or a b) = map_of a ++ map_of b"
proof (induction b arbitrary: a)
  case Nil
  show ?case by (simp add: dict_or_def)
next
  case (Cons kv b)
  obtain k v where kv: "kv = (k, v)" by (cases kv)
  from Cons.prems kv have fresh: "map_of b k = None" and d: "distinct (map fst b)"
    by (auto simp: map_of_eq_None_iff)
  have "map_of (dict_or a (kv # b)) = map_of (dict_or (dict_set a k v) b)"
    by (simp add: dict_or_def kv)
  also have "\<dots> = map_of (dict_set a k v) ++ map_of b"
    by (rule Cons.IH[OF d])
  also have "\<dots> = (map_of a)(k \<mapsto> v) ++ map_of b"
    by (simp only: map_of_dict_set)
  also have "\<dots> = map_of a ++ map_of (kv # b)"
    unfolding kv using fresh by (auto simp: fun_eq_iff map_add_def split: option.splits)
  finally show ?case .
qed

subsection \<open>Normalization\<close>

lemma fix_tags_obj:
  "fix_tags (JObj d) =
     Inr (JObj (if isinstance_list (dict_get d ''tags'' (JArr [])) then d
                else dict_set d ''tags'' (JArr [])))"
  by (simp add: fix_tags_def py_get_def py_setitem_def)

lemma fix_greetings_obj:
  "fix_greetings (JObj d) =
     Inr (JObj (if isinstance_list (dict_get d ''alternate_greetings'' (JArr [])) then d
                else dict_set d ''alternate_greetings'' (JArr [])))"
  by (simp add: fix_greetings_def py_get_def py_setitem_def)

lemma fix_entry_idem: "fix_entry e = Inr e' \<Longrightarrow> fix_entry e' = Inr e'"
  by (cases e)
    (auto simp: fix_entry_def py_get_def py_setitem_def dict_get_dict_set isinstance_list_def
      split: if_splits)

lemma fix_entries_idem: "fix_entries es = Inr es' \<Longrightarrow> fix_entries es' = Inr es'"
proof (induction es arbitrary: es')
  case Nil
  then show ?case by simp
next
  case (Cons e es)
  from Cons.prems obtain e' where e: "fix_entry e = Inr e'"
    by (cases "fix_entry e") auto
  with Cons.prems obtain r where r: "fix_entries es = Inr r" and es': "es' = e' # r"
    by (cases "fix_entries es") auto
  show ?case using fix_entry_idem[OF e] Cons.IH[OF r] es' by simp
qed

text \<open>When \<open>fix_book\<close> returns, it has either changed nothing or put the fixed entries
  of a list back.\<close>

lemma fix_book_cases:
  assumes "fix_book (JObj d) = Inr p"
  shows "p = JObj d \<or>
         (\<exists>bk items items'.
            map_of d ''character_book'' = Some (JObj bk) \<and>
            map_of bk ''entries'' = Some (JArr items) \<and>
            fix_entries items = Inr items' \<and>
            p = JObj (dict_set d ''character_book'' (JObj (dict_set bk ''entries'' (JArr items')))))"
proof (cases "map_of d ''character_book''")
  case None
  with assms show ?thesis by (simp add: fix_book_def py_contains_def dict_has_def)
next
  case (Some book)
  note facts = fix_book_def dict_has_def py_getitem_def py_contains_def py_iter_def
    py_setitem_def ebind_eq_Inr isinstance_list_def
  show ?thesis
  proof (cases book)
    case (JObj bk)
    show ?thesis
    proof (cases "map_of bk ''entries''")
      case None
      with assms Some JObj show ?thesis by (simp add: facts)
    next
      case (Some entries)
      with assms \<open>map_of d ''character_book'' = Some book\<close> JObj show ?thesis
        by (cases entries) (auto simp: facts)
    qed
  qed (use assms Some in \<open>auto simp: facts split: if_splits\<close>)
qed

lemma fix_book_frame:
  assumes "fix_book (JObj d) = Inr p"
  shows "\<exists>d'. p = JObj d' \<and> (\<forall>k. k \<noteq> ''character_book'' \<longrightarrow> map_of d' k = map_of d k)"
  using fix_book_cases[OF assms] by (auto simp: map_of_dict_set)

lemma fix_book_idem:
  assumes "fix_book (JObj d) = Inr p"
  shows "fix_book p = Inr p"
proof -
  from fix_book_cases[OF assms] show ?thesis
  proof
    assume "p = JObj d"
    with assms show ?thesis by simp
  next
    assume "\<exists>bk items items'.
            map_of d ''character_book'' = Some (JObj bk) \<and>
            map_of bk ''entries'' = Some (JArr items) \<and>
            fix_entries items = Inr items' \<and>
            p = JObj (dict_set d ''character_book'' (JObj (dict_set bk ''entries'' (JArr items'))))"
    then obtain bk items items' where
      i: "fix_entries items = Inr items'" and
      p: "p = JObj (dict_set d ''character_book'' (JObj (dict_set bk ''entries'' (JArr items'))))"
      by blast
    show ?thesis
      unfolding p
      by (simp add: fix_book_def dict_has_def py_getitem_def py_contains_def py_iter_def
          py_setitem_def map_of_dict_set fix_entries_idem[OF i] dict_set_twice
          isinstance_list_def)
  qed
qed

text \<open>The three statements on \<^verbatim>\<open>data["data"]\<close>, run on their own result, change nothing.\<close>

lemma payload_idem:
  assumes b: "ebind (ebind (fix_tags (JObj d)) fix_greetings) fix_book = Inr p"
  shows "ebind (ebind (fix_tags p) fix_greetings) fix_book = Inr p"
proof -
  define d1 where "d1 = (if isinstance_list (dict_get d ''tags'' (JArr [])) then d
                         else dict_set d ''tags'' (JArr []))"
  define d2 where "d2 = (if isinstance_list (dict_get d1 ''alternate_greetings'' (JArr [])) then d1
                         else dict_set d1 ''alternate_greetings'' (JArr []))"
  have t1: "isinstance_list (dict_get d1 ''tags'' (JArr []))"
    by (simp add: d1_def dict_get_dict_set isinstance_list_def)
  have t2: "isinstance_list (dict_get d2 ''tags'' (JArr []))"
    using t1 by (simp add: d2_def dict_get_dict_set)
  have g2: "isinstance_list (dict_get d2 ''alternate_greetings'' (JArr []))"
    by (simp add: d2_def dict_get_dict_set isinstance_list_def)
  have f1: "fix_tags (JObj d) = Inr (JObj d1)"
    by (simp add: fix_tags_obj d1_def)
  have f2: "fix_greetings (JObj d1) = Inr (JObj d2)"
    by (simp add: fix_greetings_obj d2_def)
  have fb: "fix_book (JObj d2) = Inr p"
    using b by (simp add: f1 f2)
  from fix_book_frame[OF fb] obtain d3 where p: "p = JObj d3"
    and same: "\<forall>k. k \<noteq> ''character_book'' \<longrightarrow> map_of d3 k = map_of d2 k"
    by blast
  have "dict_get d3 ''tags'' (JArr []) = dict_get d2 ''tags'' (JArr [])"
    and "dict_get d3 ''alternate_greetings'' (JArr []) = dict_get d2 ''alternate_greetings'' (JArr [])"
    using same by (simp_all add: dict_get_def)
  with t2 g2 have "fix_tags p = Inr p" and "fix_greetings p = Inr p"
    by (simp_all add: p fix_tags_obj fix_greetings_obj)
  with fix_book_idem[OF fb] show ?thesis by simp
qed

text \<open>What a successful normalization returns.\<close>

lemma normalize_Inr:
  assumes "normalize x = Inr c"
  shows "\<exists>crd d p. dict_get crd ''spec'' JNull = JStr ''chara_card_v2'' \<and>
           map_of crd ''data'' = Some (JObj d) \<and>
           ebind (ebind (fix_tags (JObj d)) fix_greetings) fix_book = Inr p \<and>
           c = JObj (dict_set crd ''data'' p)"
proof -
  from assms obtain top0 where x: "x = JObj top0"
    by (cases x) (simp_all add: normalize_def py_get_def)
  define crd where "crd = (if dict_get top0 ''spec'' JNull \<noteq> JStr ''chara_card_v2''
                           then dict_set [(''spec'', JStr ''chara_card_v2''),
                                          (''spec_version'', JStr ''2.0'')] ''data'' x
                           else top0)"
  have wrap: "(if dict_get top0 ''spec'' JNull \<noteq> JStr ''chara_card_v2''
               then py_setitem deep_empty_card ''data'' x else Inr x) = Inr (JObj crd)"
    by (simp add: crd_def x deep_empty_card_def base_def py_setitem_def)
  have spec: "dict_get crd ''spec'' JNull = JStr ''chara_card_v2''"
    by (simp add: crd_def dict_get_def)
  have get: "py_get x ''spec'' JNull = Inr (dict_get top0 ''spec'' JNull)"
    by (simp add: x py_get_def)
  have n: "normalize x =
      ebind (py_getitem (JObj crd) ''data'') (\<lambda>payload.
      ebind (fix_tags payload) (\<lambda>payload.
      ebind (fix_greetings payload) (\<lambda>payload.
      ebind (fix_book payload) (\<lambda>payload.
        py_setitem (JObj crd) ''data'' payload))))"
    unfolding normalize_def get wrap ebind.simps ..
  from assms obtain v where v: "map_of crd ''data'' = Some v"
    unfolding n by (cases "map_of crd ''data''") (auto simp: py_getitem_def)
  from assms v obtain d where d: "v = JObj d"
    unfolding n by (cases v) (auto simp: py_getitem_def fix_tags_def py_get_def)
  from assms v d obtain p where "ebind (ebind (fix_tags (JObj d)) fix_greetings) fix_book = Inr p"
    and "c = JObj (dict_set crd ''data'' p)"
    unfolding n by (auto simp: py_getitem_def py_setitem_def ebind_eq_Inr)
  with spec v d show ?thesis by blast
qed

lemma normalize_fixpoint:
  assumes "normalize x = Inr c"
  shows "normalize c = Inr c"
proof -
  from normalize_Inr[OF assms] obtain crd d p where
    spec: "dict_get crd ''spec'' JNull = JStr ''chara_card_v2''" and
    p: "ebind (ebind (fix_tags (JObj d)) fix_greetings) fix_book = Inr p" and
    c: "c = JObj (dict_set crd ''data'' p)"
    by blast
  from payload_idem[OF p] obtain p1 p2 where
    "fix_tags p = Inr p1" "fix_greetings p1 = Inr p2" "fix_book p2 = Inr p"
    by (auto simp: ebind_eq_Inr)
  then show ?thesis
    unfolding c normalize_def
    by (simp add: py_get_def py_getitem_def py_setitem_def spec dict_get_dict_set
        map_of_dict_set dict_set_twice)
qed

subsection \<open>The statements of \<open>import_worldbook\<close>\<close>

lemma adopt_result:
  "adopt key (JObj w) (JObj b) =
     Inr (JObj (if dict_get w key (JStr '''') \<noteq> JStr '''' \<and> dict_get b key (JStr '''') = JStr ''''
                then dict_set b key (dict_get w key (JStr '''')) else b))"
  by (simp add: adopt_def py_get_def py_setitem_def)

lemma default_entries_result:
  "default_entries (JObj b) = Inr (JObj (dict_set b ''entries'' (dict_get b ''entries'' (JArr []))))"
  by (simp add: default_entries_def py_get_def py_setitem_def)

lemma extend_entries_frame:
  "extend_entries F wb (JObj b) = Inr s' \<Longrightarrow> \<exists>x. s' = JObj (dict_set b ''entries'' x)"
  by (auto simp: extend_entries_def py_setitem_def ebind_eq_Inr)

lemma merge_extensions_frame:
  "merge_extensions wb (JObj b) = Inr s' \<Longrightarrow> \<exists>x. s' = JObj (dict_set b ''extensions'' x)"
  by (auto simp: merge_extensions_def py_setitem_def ebind_eq_Inr)

subsection \<open>The loop of \<open>process_worldbook\<close>\<close>

lemma strip_entry_dict: "\<exists>e'. strip_entry F (JObj e) = Inr e'"
  by (simp add: strip_entry_def py_contains_def py_get_def py_delitem_def)

lemma strip_entries_dicts:
  "\<forall>v \<in> set xs. isinstance_dict v \<Longrightarrow>
     \<exists>ys. strip_entries F xs = (ys, None) \<and> list_all2 (\<lambda>v v'. strip_entry F v = Inr v') xs ys"
proof (induction xs)
  case Nil
  show ?case by simp
next
  case (Cons x xs)
  then obtain e where x: "x = JObj e"
    by (cases x) (auto simp: isinstance_dict_def)
  obtain x' where x': "strip_entry F x = Inr x'"
    using strip_entry_dict x by blast
  from Cons obtain ys where "strip_entries F xs = (ys, None)"
    and "list_all2 (\<lambda>v v'. strip_entry F v = Inr v') xs ys"
    by auto
  then show ?case using x' by auto
qed

section \<open>The executable library on the example card\<close>

lemmas lib_simps =
  ref_lib_def ref_encode_utf8_def utf8_char_def byte_char_def b64_char_def b64_index_def
  ref_b64decode_def ref_json_loads_def skip_ws_def is_ws_def parse_string.simps unescape_def
  quote_def escape_char_def dict_or_def Let_def

lemmas normalize_simps =
  normalize_def fix_tags_def fix_greetings_def fix_book_def fix_entry_def
  py_get_def py_getitem_def py_setitem_def py_contains_def py_iter_def
  dict_get_def dict_has_def isinstance_list_def deep_empty_card_def base_def

lemma card_foo_dumps: "json_dumps ref_lib card_foo = Inr card_foo_text"
  by (simp add: lib_simps card_foo_def card_foo_text_def)

lemma card_foo_loads: "json_loads ref_lib card_foo_text = Inr card_foo"
  by (simp add: lib_simps card_foo_def card_foo_text_def)

lemma card_foo_b64:
  "decode_utf8 ref_lib (b64encode ref_lib (concat (map utf8_char card_foo_text)))
     = Inr card_foo_base64"
  by (simp add: lib_simps card_foo_text_def card_foo_base64_def)

lemma card_foo_b64_bytes:
  "encode_utf8 ref_lib card_foo_base64
     = Inr (b64encode ref_lib (concat (map utf8_char card_foo_text)))"
  by (simp add: lib_simps card_foo_text_def card_foo_base64_def)

lemma card_foo_b64decode:
  "b64decode ref_lib (b64encode ref_lib (concat (map utf8_char card_foo_text)))
     = Inr (concat (map utf8_char card_foo_text))"
  by (simp add: lib_simps card_foo_text_def)

lemma card_foo_utf8:
  "decode_utf8 ref_lib (concat (map utf8_char card_foo_text)) = Inr card_foo_text"
  by (simp add: lib_simps card_foo_text_def)

lemma card_foo_normal: "normalize card_foo = Inr card_foo"
  by (simp add: normalize_simps card_foo_def)

section \<open>The claims\<close>

subsection \<open>C1: reading back what was written\<close>

text \<open>
  C1. For every card \<open>c\<close>, reading the PNG that \<open>write_character\<close> has just written with
  \<open>c\<close> gives what normalization makes of the parsed serialization of \<open>c\<close>:
  \<^verbatim>\<open>readCard(writeCard(png, c)) == normalize(parse(serialize(c)))\<close>. The library is
  asked to decode what it encoded on the text \<open>js\<close> of \<open>c\<close>: UTF-8 and Base64 give back
  the bytes and the text they were given. The card needs no schema invariant for this.
\<close>

theorem read_after_write:
  assumes "json_dumps L c = Inr js"
      and "encode_utf8 L js = Inr jb"
      and "decode_utf8 L (b64encode L jb) = Inr s64"
      and "encode_utf8 L s64 = Inr (b64encode L jb)"
      and "b64decode L (b64encode L jb) = Inr jb"
      and "decode_utf8 L jb = Inr js"
  shows "\<exists>img'. write_character L img c = Inr img'
           \<and> read_character L img' = ebind (json_loads L js) normalize"
proof -
  have w: "write_character L img c = Inr (save img (add_text PngInfo ''chara'' s64))"
    using assms by (simp add: write_character_def)
  have t: "png_text (save img (add_text PngInfo ''chara'' s64)) ''chara'' = Some s64"
    by (simp add: png_text_def save_def add_text_def PngInfo_def)
  have "read_character L (save img (add_text PngInfo ''chara'' s64))
        = ebind (json_loads L js) normalize"
    using assms by (simp add: read_character_def t)
  with w show ?thesis by blast
qed

theorem read_after_write_witness:
  "json_dumps ref_lib card_foo = Inr card_foo_text
   \<and> (\<exists>img'. write_character ref_lib blank_png card_foo = Inr img'
          \<and> read_character ref_lib img' = Inr card_foo)"
proof -
  have enc: "encode_utf8 ref_lib card_foo_text = Inr (concat (map utf8_char card_foo_text))"
    by (simp add: ref_lib_def ref_encode_utf8_def)
  from read_after_write[OF card_foo_dumps enc card_foo_b64 card_foo_b64_bytes
      card_foo_b64decode card_foo_utf8, of blank_png]
  show ?thesis
    by (simp add: card_foo_dumps card_foo_loads card_foo_normal)
qed

subsection \<open>C2: a value that is no object\<close>

text \<open>
  C2, as the spec has it: for every decoded JSON value that is not an object,
  normalization returns a fresh default card and never raises. The code raises: the
  first statement after \<^verbatim>\<open>json.loads\<close> is \<^verbatim>\<open>data.get('spec')\<close>, and only a dictionary
  has \<^verbatim>\<open>get\<close>.
\<close>

theorem normalize_array_counterexample:
  "normalize (JArr []) = Inl AttributeError
   \<and> normalize (JArr []) \<noteq> Inr deep_empty_card"
  by (simp add: normalize_def py_get_def)

text \<open>
  C2, amended. For every decoded JSON value that is not an object (an array, a string, a
  number, a boolean, null), normalization raises \<^verbatim>\<open>AttributeError\<close> and returns no card.
\<close>

theorem normalize_rejects_non_object:
  "\<not> isinstance_dict v \<Longrightarrow> normalize v = Inl AttributeError"
  by (cases v) (simp_all add: normalize_def py_get_def isinstance_dict_def)

theorem normalize_rejects_non_object_witness:
  "\<not> isinstance_dict (JStr ''Foo'') \<and> normalize (JStr ''Foo'') = Inl AttributeError"
  using normalize_rejects_non_object[of "JStr ''Foo''"] by (simp add: isinstance_dict_def)

subsection \<open>C3: entries given as a keyed mapping\<close>

text \<open>
  C3, as the spec has it: when \<^verbatim>\<open>data.character_book.entries\<close> of the input to card
  normalization is a keyed mapping, the normalized card has the sequence of the mapping's
  values there. \<open>read_character\<close> has no such conversion: its loop takes the entries as
  they are, so on a mapping it visits the keys, which are strings without \<^verbatim>\<open>get\<close>, and
  an empty mapping stays a mapping.
\<close>

theorem normalize_keyed_entries_counterexample:
  "normalize card_keyed_entries = Inl AttributeError
   \<and> normalize card_empty_mapping = Inr card_empty_mapping"
  by (simp add: normalize_simps card_keyed_entries_def card_empty_mapping_def)

text \<open>
  C3, amended. The conversion is \<open>process_worldbook\<close>'s: for every world book whose
  \<^verbatim>\<open>entries\<close> is a keyed mapping of objects, the world book returned has under
  \<^verbatim>\<open>entries\<close> the sequence of the mapping's values in the mapping's order, each with
  its redundant legacy \<^verbatim>\<open>entry\<close> field dropped. Card normalization does not convert:
  on a card of the V2 shape whose \<^verbatim>\<open>data.character_book.entries\<close> is a non-empty keyed
  mapping \<open>read_character\<close> raises \<^verbatim>\<open>AttributeError\<close>.
\<close>

theorem keyed_entries_converted_by_worldbook_only:
  "(map_of d ''entries'' = Some (JObj m) \<and> (\<forall>v \<in> set (map snd m). isinstance_dict v)
      \<longrightarrow> (\<exists>vs. process_worldbook F (JObj d)
                  = (JObj (dict_set d ''entries'' (JArr vs)),
                     Inr (JObj (dict_set d ''entries'' (JArr vs))))
              \<and> list_all2 (\<lambda>v v'. strip_entry F v = Inr v') (map snd m) vs))
   \<and> (dict_get crd ''spec'' JNull = JStr ''chara_card_v2''
      \<and> map_of crd ''data'' = Some (JObj dd)
      \<and> map_of dd ''character_book'' = Some (JObj bk)
      \<and> map_of bk ''entries'' = Some (JObj (kv # m'))
      \<longrightarrow> normalize (JObj crd) = Inl AttributeError)"
proof (intro conjI impI)
  assume a: "map_of d ''entries'' = Some (JObj m) \<and> (\<forall>v \<in> set (map snd m). isinstance_dict v)"
  then obtain vs where vs: "strip_entries F (map snd m) = (vs, None)"
    and rel: "list_all2 (\<lambda>v v'. strip_entry F v = Inr v') (map snd m) vs"
    using strip_entries_dicts by blast
  have "process_worldbook F (JObj d)
          = (JObj (dict_set d ''entries'' (JArr vs)), Inr (JObj (dict_set d ''entries'' (JArr vs))))"
    using a by (simp add: process_worldbook_def dict_has_def dict_get_def map_of_dict_set
        py_iter_def vs dict_set_twice Let_def)
  with rel show "\<exists>vs. process_worldbook F (JObj d)
                  = (JObj (dict_set d ''entries'' (JArr vs)),
                     Inr (JObj (dict_set d ''entries'' (JArr vs))))
              \<and> list_all2 (\<lambda>v v'. strip_entry F v = Inr v') (map snd m) vs"
    by blast
next
  assume a: "dict_get crd ''spec'' JNull = JStr ''chara_card_v2''
      \<and> map_of crd ''data'' = Some (JObj dd)
      \<and> map_of dd ''character_book'' = Some (JObj bk)
      \<and> map_of bk ''entries'' = Some (JObj (kv # m'))"
  obtain d1 where t: "fix_tags (JObj dd) = Inr (JObj d1)"
    and b1: "map_of d1 ''character_book'' = Some (JObj bk)"
    using a by (auto simp: fix_tags_obj map_of_dict_set)
  obtain d2 where g: "fix_greetings (JObj d1) = Inr (JObj d2)"
    and b2: "map_of d2 ''character_book'' = Some (JObj bk)"
    using b1 by (auto simp: fix_greetings_obj map_of_dict_set)
  have "fix_book (JObj d2) = Inl AttributeError"
    using a b2 by (simp add: fix_book_def dict_has_def py_getitem_def py_contains_def
        py_iter_def fix_entry_def py_get_def)
  then show "normalize (JObj crd) = Inl AttributeError"
    using a t g by (simp add: normalize_def py_get_def py_getitem_def)
qed

theorem keyed_entries_converted_by_worldbook_only_witness:
  "process_worldbook no_floats worldbook_keyed = (worldbook_listed, Inr worldbook_listed)
   \<and> normalize card_keyed_entries = Inl AttributeError"
proof -
  have s: "strip_entry no_floats (JObj [(''entry'', JStr ''x''), (''content'', JStr ''x'')])
             = Inr (JObj [(''content'', JStr ''x'')])"
          "strip_entry no_floats (JObj [(''entry'', JStr ''x''), (''content'', JStr ''y'')])
             = Inr (JObj [(''entry'', JStr ''x''), (''content'', JStr ''y'')])"
    by (simp_all add: strip_entry_def py_contains_def py_get_def py_delitem_def dict_has_def
        dict_get_def dict_del_def)
  from keyed_entries_converted_by_worldbook_only
    [of "[(''entries'', JObj [(''0'', JObj [(''entry'', JStr ''x''), (''content'', JStr ''x'')]),
                              (''1'', JObj [(''entry'', JStr ''x''), (''content'', JStr ''y'')])])]"
        "[(''0'', JObj [(''entry'', JStr ''x''), (''content'', JStr ''x'')]),
          (''1'', JObj [(''entry'', JStr ''x''), (''content'', JStr ''y'')])]"
        no_floats
        "[(''spec'', JStr ''chara_card_v2''),
          (''data'', JObj
             [(''name'', JStr ''Foo''),
              (''character_book'', JObj
                 [(''entries'', JObj [(''0'', JObj [(''keys'', JArr [JStr ''a'']),
                                                   (''content'', JStr ''x'')])])])])]"
        "[(''name'', JStr ''Foo''),
          (''character_book'', JObj
             [(''entries'', JObj [(''0'', JObj [(''keys'', JArr [JStr ''a'']),
                                               (''content'', JStr ''x'')])])])]"
        "[(''entries'', JObj [(''0'', JObj [(''keys'', JArr [JStr ''a'']),
                                           (''content'', JStr ''x'')])])]"
        "(''0'', JObj [(''keys'', JArr [JStr ''a'']), (''content'', JStr ''x'')])"
        "[]"]
  show ?thesis
    by (auto simp: worldbook_keyed_def worldbook_listed_def card_keyed_entries_def
        isinstance_dict_def dict_get_def list_all2_Cons1 s)
qed

subsection \<open>C4: a missing card and a corrupt card\<close>

text \<open>
  C4. On a PNG without a \<^verbatim>\<open>chara\<close> text entry \<open>read_character\<close> returns the default card
  and raises nothing: \<^verbatim>\<open>spec\<close> and \<^verbatim>\<open>spec_version\<close> set, and under \<^verbatim>\<open>data\<close> the
  eleven string fields empty, \<^verbatim>\<open>alternate_greetings\<close> and \<^verbatim>\<open>tags\<close> empty lists and
  \<^verbatim>\<open>extensions\<close> an empty dictionary. When the entry is there and its value fails
  Base64 decoding, UTF-8 decoding or JSON parsing, \<open>read_character\<close> raises the decoder's
  exception and returns no card. (The source has no class of its own for these; they are
  \<^verbatim>\<open>binascii.Error\<close>, \<^verbatim>\<open>UnicodeDecodeError\<close> and \<^verbatim>\<open>json.JSONDecodeError\<close>, the spec's
  \<^verbatim>\<open>CorruptCardMetadata\<close>.)
\<close>

theorem read_character_missing_or_corrupt:
  "(png_text img0 ''chara'' = None \<longrightarrow>
      read_character L img0 =
        Inr (JObj
          [(''spec'', JStr ''chara_card_v2''),
           (''spec_version'', JStr ''2.0''),
           (''data'', JObj
              [(''name'', JStr ''''),
               (''description'', JStr ''''),
               (''personality'', JStr ''''),
               (''scenario'', JStr ''''),
               (''first_mes'', JStr ''''),
               (''mes_example'', JStr ''''),
               (''creator_notes'', JStr ''''),
               (''system_prompt'', JStr ''''),
               (''post_history_instructions'', JStr ''''),
               (''alternate_greetings'', JArr []),
               (''tags'', JArr []),
               (''creator'', JStr ''''),
               (''character_version'', JStr ''''),
               (''extensions'', JObj [])])]))
   \<and> (png_text img1 ''chara'' = Some s1 \<and> encode_utf8 L s1 = Inr b1 \<and> b64decode L b1 = Inl e1
        \<longrightarrow> read_character L img1 = Inl e1)
   \<and> (png_text img2 ''chara'' = Some s2 \<and> encode_utf8 L s2 = Inr b2 \<and> b64decode L b2 = Inr j2
        \<and> decode_utf8 L j2 = Inl e2
        \<longrightarrow> read_character L img2 = Inl e2)
   \<and> (png_text img3 ''chara'' = Some s3 \<and> encode_utf8 L s3 = Inr b3 \<and> b64decode L b3 = Inr j3
        \<and> decode_utf8 L j3 = Inr t3 \<and> json_loads L t3 = Inl e3
        \<longrightarrow> read_character L img3 = Inl e3)"
  by (simp add: read_character_def deep_empty_card_def base_def)

theorem read_character_missing_or_corrupt_witness:
  "read_character ref_lib blank_png =
     Inr (JObj
        [(''spec'', JStr ''chara_card_v2''),
         (''spec_version'', JStr ''2.0''),
         (''data'', JObj
            [(''name'', JStr ''''),
             (''description'', JStr ''''),
             (''personality'', JStr ''''),
             (''scenario'', JStr ''''),
             (''first_mes'', JStr ''''),
             (''mes_example'', JStr ''''),
             (''creator_notes'', JStr ''''),
             (''system_prompt'', JStr ''''),
             (''post_history_instructions'', JStr ''''),
             (''alternate_greetings'', JArr []),
             (''tags'', JArr []),
             (''creator'', JStr ''''),
             (''character_version'', JStr ''''),
             (''extensions'', JObj [])])])
   \<and> read_character ref_lib bad_base64_png = Inl BinasciiError
   \<and> read_character ref_lib bad_utf8_png = Inl UnicodeDecodeError
   \<and> read_character ref_lib bad_json_png = Inl JSONDecodeError"
proof -
  have m: "png_text blank_png ''chara'' = None"
    and p1: "png_text bad_base64_png ''chara'' = Some ''abc''"
    and p2: "png_text bad_utf8_png ''chara'' = Some ''/w==''"
    and p3: "png_text bad_json_png ''chara'' = Some ''ew==''"
    by (simp_all add: png_text_def blank_png_def bad_base64_png_def bad_utf8_png_def
        bad_json_png_def)
  have e1: "encode_utf8 ref_lib ''abc'' = Inr [97, 98, 99]"
    and d1: "b64decode ref_lib [97, 98, 99] = Inl BinasciiError"
    and e2: "encode_utf8 ref_lib ''/w=='' = Inr [47, 119, 61, 61]"
    and d2: "b64decode ref_lib [47, 119, 61, 61] = Inr [255]"
    and u2: "decode_utf8 ref_lib [255] = Inl UnicodeDecodeError"
    and e3: "encode_utf8 ref_lib ''ew=='' = Inr [101, 119, 61, 61]"
    and d3: "b64decode ref_lib [101, 119, 61, 61] = Inr [123]"
    and u3: "decode_utf8 ref_lib [123] = Inr ''{''"
    and l3: "json_loads ref_lib ''{'' = Inl JSONDecodeError"
    by (simp_all add: lib_simps)
  from read_character_missing_or_corrupt
    [of blank_png ref_lib bad_base64_png "''abc''" "[97, 98, 99]" BinasciiError
        bad_utf8_png "''/w==''" "[47, 119, 61, 61]" "[255]" UnicodeDecodeError
        bad_json_png "''ew==''" "[101, 119, 61, 61]" "[123]" "''{''" JSONDecodeError]
  show ?thesis
    by (simp add: m p1 p2 p3 e1 d1 e2 d2 u2 e3 d3 u3 l3)
qed

subsection \<open>C5: normalizing twice\<close>

text \<open>
  C5. Normalization is idempotent:
  \<^verbatim>\<open>normalize(parse(serialize(normalize(x)))) == normalize(x)\<close> for every parsed input
  \<open>x\<close>, when the library parses what it serialized back to the same value. Where
  \<open>normalize x\<close> raises, both sides are that exception.
\<close>

theorem normalize_idempotent:
  assumes "\<forall>c. normalize x = Inr c \<longrightarrow> ebind (json_dumps L c) (json_loads L) = Inr c"
  shows "ebind (normalize x) (\<lambda>c. ebind (ebind (json_dumps L c) (json_loads L)) normalize)
         = normalize x"
proof (cases "normalize x")
  case (Inl e)
  then show ?thesis by simp
next
  case (Inr c)
  with assms have "ebind (json_dumps L c) (json_loads L) = Inr c" by simp
  with Inr show ?thesis by (simp add: normalize_fixpoint)
qed

theorem normalize_idempotent_witness:
  "normalize legacy_foo = Inr legacy_foo_card
   \<and> ebind (json_dumps ref_lib legacy_foo_card) (json_loads ref_lib) = Inr legacy_foo_card
   \<and> ebind (normalize legacy_foo)
        (\<lambda>c. ebind (ebind (json_dumps ref_lib c) (json_loads ref_lib)) normalize)
      = Inr legacy_foo_card"
proof -
  have n: "normalize legacy_foo = Inr legacy_foo_card"
    by (simp add: normalize_simps legacy_foo_def legacy_foo_card_def)
  have d: "json_dumps ref_lib legacy_foo_card = Inr legacy_foo_text"
    by (simp add: lib_simps legacy_foo_card_def legacy_foo_text_def)
  have l: "json_loads ref_lib legacy_foo_text = Inr legacy_foo_card"
    by (simp add: lib_simps legacy_foo_card_def legacy_foo_text_def)
  have r: "\<forall>c. normalize legacy_foo = Inr c
             \<longrightarrow> ebind (json_dumps ref_lib c) (json_loads ref_lib) = Inr c"
    by (simp add: n d l)
  from normalize_idempotent[OF r] show ?thesis
    by (simp add: n d l)
qed

subsection \<open>C6: description and name in \<open>import_worldbook\<close>\<close>

text \<open>
  C6. For \<^verbatim>\<open>description\<close> and for \<^verbatim>\<open>name\<close>: the book takes the world book's value only
  when that value is not the empty string and the book's own value is the empty string
  (or the book has none); in every other case the book keeps what it had under the key,
  also nothing at all. This holds of the book as \<open>import_worldbook\<close> leaves it, whether the
  later statements raise or not.
\<close>

theorem import_worldbook_adopts:
  assumes key: "key = ''description'' \<or> key = ''name''"
  shows "\<exists>b'. fst (import_worldbook F (JObj b) (JObj w)) = JObj b'
           \<and> map_of b' key =
               (if dict_get w key (JStr '''') \<noteq> JStr '''' \<and> dict_get b key (JStr '''') = JStr ''''
                then Some (dict_get w key (JStr ''''))
                else map_of b key)"
proof -
  define b1 where "b1 = (if dict_get w ''description'' (JStr '''') \<noteq> JStr ''''
                            \<and> dict_get b ''description'' (JStr '''') = JStr ''''
                         then dict_set b ''description'' (dict_get w ''description'' (JStr '''')) else b)"
  define b2 where "b2 = (if dict_get w ''name'' (JStr '''') \<noteq> JStr ''''
                            \<and> dict_get b1 ''name'' (JStr '''') = JStr ''''
                         then dict_set b1 ''name'' (dict_get w ''name'' (JStr '''')) else b1)"
  define b3 where "b3 = dict_set b2 ''entries'' (dict_get b2 ''entries'' (JArr []))"
  have s3: "then_do (then_do (then_do (JObj b, None) (adopt ''description'' (JObj w)))
              (adopt ''name'' (JObj w))) default_entries = (JObj b3, None)"
    by (simp add: adopt_result default_entries_result b1_def b2_def b3_def)
  have k3: "map_of b3 key =
               (if dict_get w key (JStr '''') \<noteq> JStr '''' \<and> dict_get b key (JStr '''') = JStr ''''
                then Some (dict_get w key (JStr ''''))
                else map_of b key)"
    using key by (auto simp: b1_def b2_def b3_def map_of_dict_set dict_get_def)
  have imp: "import_worldbook F (JObj b) (JObj w) =
               then_do (then_do (JObj b3, None) (extend_entries F (JObj w)))
                 (merge_extensions (JObj w))"
    unfolding import_worldbook_def s3 ..
  have "\<exists>b'. fst (import_worldbook F (JObj b) (JObj w)) = JObj b' \<and> map_of b' key = map_of b3 key"
  proof (cases "extend_entries F (JObj w) (JObj b3)")
    case (Inl e)
    then show ?thesis by (simp add: imp)
  next
    case (Inr s4)
    then obtain x where s4: "s4 = JObj (dict_set b3 ''entries'' x)"
      using extend_entries_frame by blast
    show ?thesis
    proof (cases "merge_extensions (JObj w) s4")
      case (Inl e)
      then show ?thesis using key Inr s4
        by (auto simp: imp map_of_dict_set)
    next
      case (Inr s5)
      then obtain y where s5: "s5 = JObj (dict_set (dict_set b3 ''entries'' x) ''extensions'' y)"
        using merge_extensions_frame s4 by blast
      show ?thesis using key \<open>extend_entries F (JObj w) (JObj b3) = Inr s4\<close> Inr s5
        by (auto simp: imp map_of_dict_set)
    qed
  qed
  then show ?thesis by (simp only: k3)
qed

theorem import_worldbook_adopts_witness:
  "(\<exists>b'. fst (import_worldbook no_floats
               (JObj [(''description'', JStr '''')])
               (JObj [(''description'', JStr ''W''), (''entries'', JArr [])])) = JObj b'
          \<and> map_of b' ''description'' = Some (JStr ''W''))
   \<and> (\<exists>b'. fst (import_worldbook no_floats
               (JObj [(''description'', JStr ''B'')])
               (JObj [(''description'', JStr ''W''), (''entries'', JArr [])])) = JObj b'
          \<and> map_of b' ''description'' = Some (JStr ''B''))"
  using import_worldbook_adopts[of "''description''" no_floats
          "[(''description'', JStr '''')]"
          "[(''description'', JStr ''W''), (''entries'', JArr [])]"]
        import_worldbook_adopts[of "''description''" no_floats
          "[(''description'', JStr ''B'')]"
          "[(''description'', JStr ''W''), (''entries'', JArr [])]"]
  by (simp add: dict_get_def)

subsection \<open>C7: entries and extensions in \<open>import_worldbook\<close>\<close>

text \<open>
  C7. When the world book's \<^verbatim>\<open>entries\<close> is a list \<open>ws\<close>, the book's \<^verbatim>\<open>entries\<close> is a list
  \<open>es\<close> (the empty list when the book has none) and both \<^verbatim>\<open>extensions\<close> are dictionaries
  (empty when absent), \<open>import_worldbook\<close> raises nothing and leaves the book with the
  entries \<open>es @ ws\<close>, the world book's after the book's, each side in its order and nothing
  removed, and with the extensions merged key by key, the world book's value winning
  where both have the key.
\<close>

theorem import_worldbook_merges:
  assumes ws: "map_of w ''entries'' = Some (JArr ws)"
      and es: "dict_get b ''entries'' (JArr []) = JArr es"
      and we: "dict_get w ''extensions'' (JObj []) = JObj we"
      and be: "dict_get b ''extensions'' (JObj []) = JObj be"
      and dist: "distinct (map fst we)"
  shows "\<exists>b' m. import_worldbook F (JObj b) (JObj w) = (JObj b', None)
           \<and> map_of b' ''entries'' = Some (JArr (es @ ws))
           \<and> map_of b' ''extensions'' = Some (JObj m)
           \<and> (\<forall>k. map_of m k = (case map_of we k of Some v \<Rightarrow> Some v | None \<Rightarrow> map_of be k))"
proof -
  define b1 where "b1 = (if dict_get w ''description'' (JStr '''') \<noteq> JStr ''''
                            \<and> dict_get b ''description'' (JStr '''') = JStr ''''
                         then dict_set b ''description'' (dict_get w ''description'' (JStr '''')) else b)"
  define b2 where "b2 = (if dict_get w ''name'' (JStr '''') \<noteq> JStr ''''
                            \<and> dict_get b1 ''name'' (JStr '''') = JStr ''''
                         then dict_set b1 ''name'' (dict_get w ''name'' (JStr '''')) else b1)"
  define b3 where "b3 = dict_set b2 ''entries'' (JArr es)"
  define b4 where "b4 = dict_set b3 ''entries'' (JArr (es @ ws))"
  define b5 where "b5 = dict_set b4 ''extensions'' (JObj (dict_or be we))"
  have e2: "dict_get b2 ''entries'' (JArr []) = JArr es"
    using es by (simp add: b1_def b2_def dict_get_dict_set)
  have x2: "dict_get b4 ''extensions'' (JObj []) = JObj be"
    using be by (simp add: b1_def b2_def b3_def b4_def dict_get_dict_set)
  have s3: "then_do (then_do (then_do (JObj b, None) (adopt ''description'' (JObj w)))
              (adopt ''name'' (JObj w))) default_entries = (JObj b3, None)"
  proof -
    have a1: "adopt ''description'' (JObj w) (JObj b) = Inr (JObj b1)"
      by (simp add: adopt_result b1_def)
    have a2: "adopt ''name'' (JObj w) (JObj b1) = Inr (JObj b2)"
      by (simp add: adopt_result b2_def)
    have a3: "default_entries (JObj b2) = Inr (JObj b3)"
      by (simp add: default_entries_result b3_def e2)
    show ?thesis by (simp add: a1 a2 a3)
  qed
  have s4: "extend_entries F (JObj w) (JObj b3) = Inr (JObj b4)"
    by (simp add: extend_entries_def py_getitem_def py_iadd_def py_iter_def py_setitem_def
        b3_def b4_def map_of_dict_set ws)
  have s5: "merge_extensions (JObj w) (JObj b4) = Inr (JObj b5)"
    by (simp add: merge_extensions_def py_get_def py_or_def py_setitem_def we x2 b5_def)
  have "import_worldbook F (JObj b) (JObj w) = (JObj b5, None)"
    unfolding import_worldbook_def s3 by (simp add: s4 s5)
  moreover have "map_of b5 ''entries'' = Some (JArr (es @ ws))"
    by (simp add: b5_def b4_def map_of_dict_set)
  moreover have "map_of b5 ''extensions'' = Some (JObj (dict_or be we))"
    by (simp add: b5_def map_of_dict_set)
  moreover have "\<forall>k. map_of (dict_or be we) k
                   = (case map_of we k of Some v \<Rightarrow> Some v | None \<Rightarrow> map_of be k)"
    by (simp add: map_of_dict_or[OF dist] map_add_def)
  ultimately show ?thesis by blast
qed

theorem import_worldbook_merges_witness:
  "\<exists>b' m. import_worldbook no_floats
             (JObj [(''extensions'', JObj [(''a'', JInt 1)]), (''entries'', JArr [JStr ''E1''])])
             (JObj [(''extensions'', JObj [(''a'', JInt 2), (''b'', JInt 3)]),
                    (''entries'', JArr [JStr ''E2'', JStr ''E3''])])
           = (JObj b', None)
        \<and> map_of b' ''entries'' = Some (JArr [JStr ''E1'', JStr ''E2'', JStr ''E3''])
        \<and> map_of b' ''extensions'' = Some (JObj m)
        \<and> map_of m ''a'' = Some (JInt 2) \<and> map_of m ''b'' = Some (JInt 3)"
proof -
  from import_worldbook_merges
    [of "[(''extensions'', JObj [(''a'', JInt 2), (''b'', JInt 3)]),
          (''entries'', JArr [JStr ''E2'', JStr ''E3''])]"
        "[JStr ''E2'', JStr ''E3'']"
        "[(''extensions'', JObj [(''a'', JInt 1)]), (''entries'', JArr [JStr ''E1''])]"
        "[JStr ''E1'']"
        "[(''a'', JInt 2), (''b'', JInt 3)]"
        "[(''a'', JInt 1)]"
        no_floats]
  obtain b' m where
    "import_worldbook no_floats
       (JObj [(''extensions'', JObj [(''a'', JInt 1)]), (''entries'', JArr [JStr ''E1''])])
       (JObj [(''extensions'', JObj [(''a'', JInt 2), (''b'', JInt 3)]),
              (''entries'', JArr [JStr ''E2'', JStr ''E3''])])
     = (JObj b', None)"
    and "map_of b' ''entries'' = Some (JArr ([JStr ''E1''] @ [JStr ''E2'', JStr ''E3'']))"
    and "map_of b' ''extensions'' = Some (JObj m)"
    and m: "\<forall>k. map_of m k
              = (case map_of [(''a'', JInt 2), (''b'', JInt 3)] k of
                   Some v \<Rightarrow> Some v | None \<Rightarrow> map_of [(''a'', JInt 1)] k)"
    by (auto simp: dict_get_def)
  moreover from m have "map_of m ''a'' = Some (JInt 2)" and "map_of m ''b'' = Some (JInt 3)"
    by simp_all
  ultimately show ?thesis by auto
qed

subsection \<open>C8: who changes the argument\<close>

text \<open>
  C8, as the spec has it: every core operation but \<open>import_worldbook\<close> leaves its inputs
  as they were, and \<open>process_worldbook\<close> in particular does not change its argument. It
  does: \<^verbatim>\<open>data["entries"] = entries\<close> and \<^verbatim>\<open>del entry["entry"]\<close> work on the caller's
  object, and \<^verbatim>\<open>return data\<close> hands that same object back.
\<close>

theorem process_worldbook_mutates_counterexample:
  "fst (process_worldbook no_floats worldbook_keyed) = worldbook_listed
   \<and> worldbook_listed \<noteq> worldbook_keyed"
  by (simp add: process_worldbook_def worldbook_keyed_def worldbook_listed_def dict_has_def
      dict_get_def py_iter_def strip_entry_def py_contains_def py_get_def py_delitem_def
      dict_del_def Let_def)

text \<open>
  C8, amended. \<open>import_worldbook\<close> is not the only core operation that changes an
  argument: \<open>process_worldbook\<close> works on its argument in place. When the argument is an
  object with an \<^verbatim>\<open>entries\<close> field and the call returns, the caller's object is the
  returned world book itself, conversions included. When the argument is an object whose
  \<^verbatim>\<open>entries\<close> field is a keyed mapping, the caller's object differs afterwards from
  what it was, whether the call returns or raises. An argument without an
  \<^verbatim>\<open>entries\<close> field (the call returns \<^verbatim>\<open>None\<close> or another card's character book, or
  raises) and an argument that is no object are left as they were.
\<close>

theorem process_worldbook_in_place:
  "(isinstance_dict data \<and> py_contains ''entries'' data = Inr True
      \<and> snd (process_worldbook F data) = Inr r
      \<longrightarrow> fst (process_worldbook F data) = r)
   \<and> (map_of d1 ''entries'' = Some (JObj m)
      \<longrightarrow> fst (process_worldbook F (JObj d1)) \<noteq> JObj d1)
   \<and> (\<not> (isinstance_dict data0 \<and> py_contains ''entries'' data0 = Inr True)
      \<longrightarrow> fst (process_worldbook F data0) = data0)"
proof (intro conjI impI)
  assume a: "isinstance_dict data \<and> py_contains ''entries'' data = Inr True
      \<and> snd (process_worldbook F data) = Inr r"
  then obtain d where d: "data = JObj d" and e: "dict_has d ''entries''"
    by (cases data) (auto simp: isinstance_dict_def py_contains_def)
  from a show "fst (process_worldbook F data) = r"
    by (auto simp: d e process_worldbook_def Let_def
        split: sum.splits prod.splits option.splits)
next
  assume a: "map_of d1 ''entries'' = Some (JObj m)"
  obtain items' e where s: "strip_entries F (map snd m) = (items', e)"
    by (cases "strip_entries F (map snd m)")
  have after: "fst (process_worldbook F (JObj d1)) = JObj (dict_set d1 ''entries'' (JArr items'))"
    using a by (simp add: process_worldbook_def dict_has_def dict_get_def map_of_dict_set
        py_iter_def s dict_set_twice Let_def)
  have "dict_set d1 ''entries'' (JArr items') \<noteq> d1"
  proof
    assume "dict_set d1 ''entries'' (JArr items') = d1"
    then have "map_of (dict_set d1 ''entries'' (JArr items')) ''entries'' = map_of d1 ''entries''"
      by simp
    with a show False by (simp add: map_of_dict_set)
  qed
  with after show "fst (process_worldbook F (JObj d1)) \<noteq> JObj d1" by simp
next
  assume a: "\<not> (isinstance_dict data0 \<and> py_contains ''entries'' data0 = Inr True)"
  show "fst (process_worldbook F data0) = data0"
  proof (cases data0)
    case (JObj d)
    with a have "\<not> dict_has d ''entries''"
      by (simp add: isinstance_dict_def py_contains_def)
    then show ?thesis by (simp add: JObj process_worldbook_def)
  qed (simp_all add: process_worldbook_def)
qed

theorem process_worldbook_in_place_witness:
  "process_worldbook no_floats worldbook_keyed = (worldbook_listed, Inr worldbook_listed)
   \<and> isinstance_dict worldbook_keyed
   \<and> py_contains ''entries'' worldbook_keyed = Inr True
   \<and> fst (process_worldbook no_floats worldbook_keyed) \<noteq> worldbook_keyed
   \<and> fst (process_worldbook no_floats card_empty_book) = card_empty_book
   \<and> py_contains ''entries'' card_empty_book = Inr False"
proof -
  have r: "snd (process_worldbook no_floats worldbook_keyed) = Inr worldbook_listed"
    by (simp add: process_worldbook_def worldbook_keyed_def worldbook_listed_def dict_has_def
        dict_get_def py_iter_def strip_entry_def py_contains_def py_get_def py_delitem_def
        dict_del_def Let_def)
  have k: "isinstance_dict worldbook_keyed" "py_contains ''entries'' worldbook_keyed = Inr True"
    by (simp_all add: worldbook_keyed_def isinstance_dict_def py_contains_def dict_has_def)
  have n: "py_contains ''entries'' card_empty_book = Inr False"
    by (simp add: card_empty_book_def py_contains_def dict_has_def)
  have w: "worldbook_keyed = JObj
     [(''entries'', JObj
         [(''0'', JObj [(''entry'', JStr ''x''), (''content'', JStr ''x'')]),
          (''1'', JObj [(''entry'', JStr ''x''), (''content'', JStr ''y'')])])]"
    by (simp add: worldbook_keyed_def)
  note t = process_worldbook_in_place
    [of worldbook_keyed no_floats worldbook_listed
        "[(''entries'', JObj
             [(''0'', JObj [(''entry'', JStr ''x''), (''content'', JStr ''x'')]),
              (''1'', JObj [(''entry'', JStr ''x''), (''content'', JStr ''y'')])])]"
        "[(''0'', JObj [(''entry'', JStr ''x''), (''content'', JStr ''x'')]),
          (''1'', JObj [(''entry'', JStr ''x''), (''content'', JStr ''y'')])]"
        card_empty_book]
  have a: "fst (process_worldbook no_floats worldbook_keyed) = worldbook_listed"
    using t[THEN conjunct1] r k by simp
  have b: "fst (process_worldbook no_floats worldbook_keyed) \<noteq> worldbook_keyed"
    using t[THEN conjunct2, THEN conjunct1] unfolding w by simp
  have c: "fst (process_worldbook no_floats card_empty_book) = card_empty_book"
    using t[THEN conjunct2, THEN conjunct2] n by simp
  from a b c r k n show ?thesis
    by (simp add: prod_eq_iff)
qed

subsection \<open>C9: a character book without entries as world book\<close>

text \<open>
  C9. There are inputs on which \<open>process_worldbook\<close> returns a world book that is not
  \<^verbatim>\<open>None\<close> and has no \<^verbatim>\<open>entries\<close> field: every whole card without a top-level
  \<^verbatim>\<open>entries\<close> whose \<^verbatim>\<open>data.character_book\<close> is an object without \<^verbatim>\<open>entries\<close>. On
  such a world book \<open>import_worldbook\<close> raises \<^verbatim>\<open>KeyError\<close> at
  \<^verbatim>\<open>worldBook["entries"]\<close>, whatever the book; it does not merge nothing.
\<close>

theorem fallback_book_without_entries:
  assumes "\<not> dict_has d ''entries''"
      and "map_of d ''spec'' = Some (JStr ''chara_card_v2'')"
      and "map_of d ''data'' = Some (JObj dd)"
      and "map_of dd ''character_book'' = Some (JObj wb)"
      and "\<not> dict_has wb ''entries''"
  shows "process_worldbook F (JObj d) = (JObj d, Inr (JObj wb))
         \<and> JObj wb \<noteq> JNull
         \<and> py_contains ''entries'' (JObj wb) = Inr False
         \<and> snd (import_worldbook F (JObj b) (JObj wb)) = Some KeyError"
proof -
  have "process_worldbook F (JObj d) = (JObj d, Inr (JObj wb))"
    using assms by (simp add: process_worldbook_def card_fallback_def dict_has_def
        dict_get_def py_contains_def py_getitem_def)
  moreover have "py_contains ''entries'' (JObj wb) = Inr False"
    using assms by (simp add: py_contains_def)
  moreover have "snd (import_worldbook F (JObj b) (JObj wb)) = Some KeyError"
    using assms by (simp add: import_worldbook_def adopt_result default_entries_result
        extend_entries_def py_getitem_def map_of_dict_set dict_has_def split: option.splits)
  ultimately show ?thesis by simp
qed

theorem fallback_book_without_entries_witness:
  "process_worldbook no_floats card_empty_book = (card_empty_book, Inr (JObj []))
   \<and> import_worldbook no_floats (JObj [(''entries'', JArr [JStr ''E1''])]) (JObj [])
       = (JObj [(''entries'', JArr [JStr ''E1''])], Some KeyError)"
proof -
  have i: "fst (import_worldbook no_floats (JObj [(''entries'', JArr [JStr ''E1''])]) (JObj []))
           = JObj [(''entries'', JArr [JStr ''E1''])]"
    by (simp add: import_worldbook_def adopt_result default_entries_result extend_entries_def
        py_getitem_def dict_get_def)
  from fallback_book_without_entries
    [of "[(''spec'', JStr ''chara_card_v2''), (''data'', JObj [(''character_book'', JObj [])])]"
        "[(''character_book'', JObj [])]" "[]" no_floats "[(''entries'', JArr [JStr ''E1''])]"]
  show ?thesis
    by (simp add: card_empty_book_def dict_has_def prod_eq_iff i)
qed

subsection \<open>C10: the text chunks of the written file\<close>

text \<open>
  C10. Whatever PNG and card \<open>write_character\<close> is given, the file it writes has exactly
  one text chunk, keyed \<^verbatim>\<open>chara\<close>; every other text entry of the file that was there is
  gone, and the image is the one that was there.
\<close>

theorem write_character_replaces_text:
  assumes "write_character L img c = Inr img'"
  shows "(\<exists>v. chunks img' = [(''chara'', v)])
         \<and> (\<forall>k. k \<noteq> ''chara'' \<longrightarrow> png_text img' k = None)
         \<and> pixels img' = pixels img"
proof -
  from assms obtain v where "img' = save img (add_text PngInfo ''chara'' v)"
    by (auto simp: write_character_def ebind_eq_Inr)
  then show ?thesis
    by (simp add: save_def add_text_def PngInfo_def png_text_def)
qed

theorem write_character_replaces_text_witness:
  "png_text tagged_png ''Comment'' = Some ''hello''
   \<and> (\<exists>img'. write_character ref_lib tagged_png card_foo = Inr img'
          \<and> chunks img' = [(''chara'', card_foo_base64)]
          \<and> png_text img' ''Comment'' = None
          \<and> pixels img' = 7)"
proof -
  have enc: "encode_utf8 ref_lib card_foo_text = Inr (concat (map utf8_char card_foo_text))"
    by (simp add: ref_lib_def ref_encode_utf8_def)
  have w: "write_character ref_lib tagged_png card_foo
           = Inr (save tagged_png (add_text PngInfo ''chara'' card_foo_base64))"
    by (simp add: write_character_def card_foo_dumps enc card_foo_b64)
  have t: "png_text tagged_png ''Comment'' = Some ''hello''"
    by (simp add: png_text_def tagged_png_def)
  from write_character_replaces_text[OF w] w t show ?thesis
    by (simp add: save_def add_text_def PngInfo_def tagged_png_def)
qed

end
